(* ===== verification/Prelude.thy ===== *)
theory Prelude
  imports Main
begin

text \<open>
  Shared vocabulary of the development: the JavaScript exception model (a handler that
  throws keeps the effects it made before the throw), the values of \<open>element.style.display\<close>,
  and the class-list operations the controller applies to groups of DOM elements
  (\<open>classList.remove('active')\<close> on every element of a \<open>querySelectorAll\<close> result,
  \<open>classList.add('active')\<close> on the element \<open>getElementById\<close> returns or on the
  element at a list index). Elements with an \<open>id\<close> are pairs of the id and their
  \<open>active\<close> flag, in document order; elements without one (the hero slides) are just
  their flags.
\<close>

named_theorems dom_simps "rewrite rules for the class-list helpers"

type_synonym dom_id = string

text \<open>\<open>window.localStorage\<close>: a map from keys to stored strings.\<close>

type_synonym storage = "string \<Rightarrow> string option"

subsection \<open>Exceptions\<close>

text \<open>
  The only exception the script can raise is a \<open>TypeError\<close>: reading
  \<open>classList\<close> of \<open>null\<close> (a missing element) or of \<open>undefined\<close> (an index
  outside a node list). An event handler that throws stops there; whatever it changed
  before the throw stays changed, so the outcome of a handler carries the state in
  both cases.
\<close>

datatype js_error = TypeError

datatype 'a outcome = Ok 'a | Threw js_error 'a

primrec final_state :: "'a outcome \<Rightarrow> 'a" where
  "final_state (Ok s) = s"
| "final_state (Threw e s) = s"

primrec threw :: "'a outcome \<Rightarrow> bool" where
  "threw (Ok s) = False"
| "threw (Threw e s) = True"

primrec map_outcome :: "('a \<Rightarrow> 'b) \<Rightarrow> 'a outcome \<Rightarrow> 'b outcome" where
  "map_outcome f (Ok s) = Ok (f s)"
| "map_outcome f (Threw e s) = Threw e (f s)"

text \<open>Sequencing: the second handler part runs only when the first did not throw.\<close>

primrec and_then :: "'a outcome \<Rightarrow> ('a \<Rightarrow> 'a outcome) \<Rightarrow> 'a outcome" where
  "and_then (Ok s) f = f s"
| "and_then (Threw e s) f = Threw e s"

subsection \<open>Inline styles\<close>

text \<open>\<open>element.style.display\<close>: unset (the stylesheet decides), or one of the values
  the script writes.\<close>

datatype display = DisplayUnset | DisplayFlex | DisplayBlock | DisplayNone

subsection \<open>Class lists of identified elements\<close>

definition clear_active :: "(dom_id \<times> bool) list \<Rightarrow> (dom_id \<times> bool) list" where
  "clear_active els = map (\<lambda>(k, _). (k, False)) els"

text \<open>\<open>getElementById(k).classList.add('active')\<close>: the first element in document order
  whose id is \<open>k\<close>; \<open>None\<close> when there is none (the call dereferences \<open>null\<close>).\<close>

fun activate_first :: "dom_id \<Rightarrow> (dom_id \<times> bool) list \<Rightarrow> (dom_id \<times> bool) list option" where
  "activate_first k [] = None"
| "activate_first k ((k', a) # els) =
     (if k' = k then Some ((k', True) # els)
      else map_option (Cons (k', a)) (activate_first k els))"

definition active_ids :: "(dom_id \<times> bool) list \<Rightarrow> dom_id list" where
  "active_ids els = map fst (filter snd els)"

definition set_active_at :: "nat \<Rightarrow> (dom_id \<times> bool) list \<Rightarrow> (dom_id \<times> bool) list" where
  "set_active_at i els = els[i := (fst (els ! i), True)]"

subsection \<open>Class lists of anonymous elements\<close>

definition active_indices :: "bool list \<Rightarrow> nat list" where
  "active_indices fs = filter (\<lambda>i. fs ! i) [0..<length fs]"

subsection \<open>Lemmas on the helpers\<close>

lemma final_state_map_outcome [simp]: "final_state (map_outcome f r) = f (final_state r)"
  by (cases r) simp_all

lemma threw_map_outcome [simp]: "threw (map_outcome f r) = threw r"
  by (cases r) simp_all

lemma clear_active_Nil [simp, dom_simps]: "clear_active [] = []"
  by (simp add: clear_active_def)

lemma clear_active_Cons [simp, dom_simps]:
  "clear_active ((k, a) # els) = (k, False) # clear_active els"
  by (simp add: clear_active_def)

lemma clear_active_length [simp, dom_simps]: "length (clear_active els) = length els"
  by (simp add: clear_active_def)

lemma map_fst_clear_active [simp, dom_simps]: "map fst (clear_active els) = map fst els"
  by (induction els) auto

lemma active_ids_clear_active [simp, dom_simps]: "active_ids (clear_active els) = []"
  by (induction els) (auto simp: active_ids_def)

lemma active_ids_Nil [simp, dom_simps]: "active_ids [] = []"
  by (simp add: active_ids_def)

lemma active_ids_Cons [simp, dom_simps]:
  "active_ids ((k, a) # els) = (if a then k # active_ids els else active_ids els)"
  by (simp add: active_ids_def)

lemma fst_set_clear_active [simp, dom_simps]: "fst ` set (clear_active els) = fst ` set els"
  by (metis map_fst_clear_active set_map)

lemma activate_first_None_iff [simp, dom_simps]:
  "(activate_first k els = None) \<longleftrightarrow> k \<notin> fst ` set els"
  by (induction k els rule: activate_first.induct) auto

text \<open>After clearing, activating by id leaves exactly that id active.\<close>

lemma active_ids_activate_first_clear:
  "activate_first k (clear_active els) = Some els' \<Longrightarrow> active_ids els' = [k]"
proof (induction els arbitrary: els')
  case Nil
  then show ?case by simp
next
  case (Cons e els)
  obtain k' a where e: "e = (k', a)" by fastforce
  show ?case
  proof (cases "k' = k")
    case True
    with Cons.prems e show ?thesis by auto
  next
    case False
    with Cons.prems e obtain els'' where
      "activate_first k (clear_active els) = Some els''" and "els' = (k', False) # els''"
      by auto
    with Cons.IH show ?thesis by simp
  qed
qed

lemma activate_first_clear_Some:
  "k \<in> fst ` set els \<Longrightarrow> \<exists>els'. activate_first k (clear_active els) = Some els'"
  by (cases "activate_first k (clear_active els)") auto

lemma set_active_at_length [simp, dom_simps]: "length (set_active_at i els) = length els"
  by (simp add: set_active_at_def)

lemma map_fst_set_active_at [simp, dom_simps]:
  "map fst (set_active_at i els) = map fst els"
proof (cases "i < length els")
  case True
  then have "(map fst els)[i := fst (els ! i)] = map fst els"
    by (metis list_update_id nth_map)
  then show ?thesis by (simp add: set_active_at_def map_update)
qed (simp add: set_active_at_def list_update_beyond)

lemma fst_clear_active_nth [simp, dom_simps]:
  "i < length els \<Longrightarrow> fst (clear_active els ! i) = fst (els ! i)"
  by (metis clear_active_length map_fst_clear_active nth_map)

lemma active_ids_set_active_at_clear:
  assumes "i < length els"
  shows "active_ids (set_active_at i (clear_active els)) = [fst (els ! i)]"
  using assms
proof (induction els arbitrary: i)
  case Nil
  then show ?case by simp
next
  case (Cons e els)
  obtain k a where e: "e = (k, a)" by fastforce
  show ?case
  proof (cases i)
    case 0
    with e show ?thesis by (simp add: set_active_at_def)
  next
    case (Suc j)
    with Cons.prems have "j < length els" by simp
    with Cons.IH have "active_ids (set_active_at j (clear_active els)) = [fst (els ! j)]" .
    with Suc e \<open>j < length els\<close> show ?thesis by (simp add: set_active_at_def)
  qed
qed

lemma active_indices_length: "i \<in> set (active_indices fs) \<Longrightarrow> i < length fs"
  by (simp add: active_indices_def)

lemma active_indices_single:
  assumes "i < n"
  shows "active_indices ((replicate n False)[i := True]) = [i]"
proof -
  have "filter (\<lambda>j. (replicate n False)[i := True] ! j) [0..<n] = filter (\<lambda>j. j = i) [0..<n]"
    using assms by (intro filter_cong) (auto simp: nth_list_update)
  also have "\<dots> = [i]"
    using assms by (induction n) (auto simp: less_Suc_eq filter_empty_conv)
  finally show ?thesis by (simp add: active_indices_def)
qed

lemma active_indices_replicate [simp, dom_simps]: "active_indices (replicate n False) = []"
  by (simp add: active_indices_def)

end
