(* ===== verification/Text.thy ===== *)
theory Text
  imports Prelude "HOL-Library.Sublist"
begin

text \<open>
  The three JavaScript string operations the search handler uses
  (\<open>src/script.js\<close>, lines 107, 115 and 258--259): \<open>String.prototype.trim\<close>,
  \<open>String.prototype.toLowerCase\<close> and \<open>String.prototype.includes\<close>. Strings are
  \<open>char\<close> lists, and a \<open>char\<close> (eight bits) stands for the UTF-16 code unit of the
  same number, so the model covers the Latin-1 block U+0000--U+00FF exactly:
  \<open>trim\<close> strips the ECMAScript white space and line terminators of that block (tab,
  line feed, vertical tab, form feed, carriage return, space and the no-break space
  U+00A0), and \<open>toLowerCase\<close> applies the Unicode simple lower-case mapping of the
  block (\<open>A\<close>--\<open>Z\<close>, and U+00C0--U+00DE except the multiplication sign U+00D7,
  move up by 32). Code units above U+00FF are not representable.

  \<open>str_includes\<close> (\<open>includes\<close> is an Isar keyword) is written as the scan a library implementation performs (try every
  start position in turn) and is proved equal to the library's \<open>sublist\<close>, the
  specification "the needle occurs contiguously in the haystack".
\<close>

subsection \<open>White space and trim\<close>

definition js_whitespace :: "char \<Rightarrow> bool" where
  "js_whitespace c \<longleftrightarrow> of_char c \<in> {9, 10, 11, 12, 13, 32, 160 :: nat}"

definition trim :: "string \<Rightarrow> string" where
  "trim s = rev (dropWhile js_whitespace (rev (dropWhile js_whitespace s)))"

subsection \<open>Lower case\<close>

definition to_lower_char :: "char \<Rightarrow> char" where
  "to_lower_char c =
     (let n = (of_char c :: nat)
      in if 65 \<le> n \<and> n \<le> 90 \<or> 192 \<le> n \<and> n \<le> 222 \<and> n \<noteq> 215 then char_of (n + 32) else c)"

definition toLowerCase :: "string \<Rightarrow> string" where
  "toLowerCase s = map to_lower_char s"

subsection \<open>Substring search\<close>

fun is_prefix_of :: "'a list \<Rightarrow> 'a list \<Rightarrow> bool" where
  "is_prefix_of [] ys = True"
| "is_prefix_of (x # xs) [] = False"
| "is_prefix_of (x # xs) (y # ys) = (x = y \<and> is_prefix_of xs ys)"

text \<open>\<open>hay.includes(needle)\<close>: some start position of \<open>hay\<close> begins with \<open>needle\<close>.\<close>

fun str_includes :: "'a list \<Rightarrow> 'a list \<Rightarrow> bool" where
  "str_includes [] needle = (needle = [])"
| "str_includes (c # cs) needle = (is_prefix_of needle (c # cs) \<or> str_includes cs needle)"

subsection \<open>Lemmas\<close>

lemma is_prefix_of_prefix [simp]: "is_prefix_of xs ys \<longleftrightarrow> prefix xs ys"
  by (induction xs ys rule: is_prefix_of.induct) auto

lemma to_lower_char_idem [simp]: "to_lower_char (to_lower_char c) = to_lower_char c"
proof -
  have "of_char c < (256 :: nat)" by (rule nat_of_char_less_256)
  then show ?thesis by (auto simp: to_lower_char_def Let_def)
qed

lemma toLowerCase_length [simp]: "length (toLowerCase s) = length s"
  by (simp add: toLowerCase_def)

lemma toLowerCase_Nil_iff [simp]: "toLowerCase s = [] \<longleftrightarrow> s = []"
  by (simp add: toLowerCase_def)

lemma str_includes_eq_sublist: "str_includes hay needle \<longleftrightarrow> sublist needle hay"
  by (induction hay) (auto simp: sublist_Cons_right)

lemma trim_Nil_iff: "trim s = [] \<longleftrightarrow> (\<forall>c \<in> set s. js_whitespace c)"
proof -
  let ?d = "dropWhile js_whitespace s"
  have "trim s = [] \<longleftrightarrow> (\<forall>c \<in> set ?d. js_whitespace c)"
    by (simp add: trim_def)
  also have "\<dots> \<longleftrightarrow> ?d = []"
    by (metis hd_dropWhile hd_in_set empty_iff list.set(1))
  also have "\<dots> \<longleftrightarrow> (\<forall>c \<in> set s. js_whitespace c)"
    by simp
  finally show ?thesis .
qed

text \<open>White space around a string does not survive \<open>trim\<close>.\<close>

lemma trim_blank_around:
  assumes "list_all js_whitespace ps" and "list_all js_whitespace ss"
  shows "trim (ps @ q @ ss) = trim q"
proof (cases "list_all js_whitespace q")
  case True
  with assms have ss: "dropWhile js_whitespace ss = []" and q: "dropWhile js_whitespace q = []"
    by (simp_all add: list_all_iff)
  from assms(1) have "dropWhile js_whitespace (ps @ q @ ss) = dropWhile js_whitespace (q @ ss)"
    by (simp add: list_all_iff dropWhile_append2)
  also from True have "\<dots> = dropWhile js_whitespace ss"
    by (simp add: list_all_iff dropWhile_append2)
  finally show ?thesis by (simp add: trim_def ss q)
next
  case False
  then obtain c where c: "c \<in> set q" "\<not> js_whitespace c" by (auto simp: list_all_iff)
  have "dropWhile js_whitespace (ps @ q @ ss) = dropWhile js_whitespace q @ ss"
    using assms(1) c by (simp add: list_all_iff dropWhile_append1 dropWhile_append2)
  moreover have "dropWhile js_whitespace (rev ss @ rev (dropWhile js_whitespace q)) =
      dropWhile js_whitespace (rev (dropWhile js_whitespace q))"
    using assms(2) by (intro dropWhile_append2) (simp add: list_all_iff)
  ultimately show ?thesis by (simp add: trim_def)
qed

end
