(* ===== verification/Articles.thy ===== *)
theory Articles
  imports Prelude
begin

text \<open>
  The article records and the Article Source of \<open>src/script.js\<close>. An article is the
  object literal of lines 182--235 (\<open>source: { name }\<close> is flattened into the field
  \<open>source_name\<close>). The source is the mock table \<open>mockNews\<close>, built inside
  \<open>fetchNews\<close> after its simulated network delay, and filtered by the category the
  controller holds at that moment (lines 238--243): every category but
  \<open>general\<close> keeps the articles tagged with it, \<open>general\<close> keeps them all.
\<close>

record article =
  title :: string
  description :: string
  urlToImage :: string
  publishedAt :: string
  source_name :: string
  url :: string
  category :: string

definition mockNews :: "article list" where
  \<open>mockNews = [
     \<lparr>title = ''Pakistan's Economic Growth Exceeds Expectations'',
      description = ''The latest economic reports indicate that Pakistan's GDP growth has surpassed government projections, with significant improvements in manufacturing and agriculture sectors.'',
      urlToImage = ''https://images.unsplash.com/photo-1566378246598-5b11a0d486cc?ixlib=rb-4.0.3&ixid=MnwxMjA3fDB8MHxwaG90by1wYWdlfHx8fGVufDB8fHx8&auto=format&fit=crop&w=400&q=80'',
      publishedAt = ''2023-07-15T08:30:00Z'',
      source_name = ''Dawn News'',
      url = ''#'',
      category = ''general''\<rparr>,
     \<lparr>title = ''New Technology Park Inaugurated in Islamabad'',
      description = ''Prime Minister inaugurated a state-of-the-art technology park aimed at fostering innovation and providing opportunities for IT startups and entrepreneurs.'',
      urlToImage = ''https://images.unsplash.com/photo-1593113630400-ea4288922497?ixlib=rb-4.0.3&ixid=MnwxMjA3fDB8MHxwaG90by1wYWdlfHx8fGVufDB8fHx8&auto=format&fit=crop&w=400&q=80'',
      publishedAt = ''2023-07-14T14:45:00Z'',
      source_name = ''The News'',
      url = ''#'',
      category = ''technology''\<rparr>,
     \<lparr>title = ''Pakistan Cricket Team Announces Squad for World Cup'',
      description = ''The national selection committee has revealed the 15-member squad that will represent Pakistan in the upcoming ICC World Cup tournament.'',
      urlToImage = ''https://www.pcb.com.pk/timthumb.php?src=images/news_images/featured_images/cb303443a112.jpeg&w=675'',
      publishedAt = ''2023-07-14T10:15:00Z'',
      source_name = ''Geo Sports'',
      url = ''#'',
      category = ''sports''\<rparr>,
     \<lparr>title = ''Healthcare Initiative Launched in Rural Areas'',
      description = ''The government has launched a new healthcare initiative aimed at improving medical facilities in remote and underserved regions of the country.'',
      urlToImage = ''https://www.unicef.org/pakistan/sites/unicef.org.pakistan/files/styles/hero_extended/public/UNICEF%20x%20Human%20Story%20x%20RHC%20Ganda%20Singh%20Wala%20%2851%29.JPG.webp?itok=KqO96cVm'',
      publishedAt = ''2023-07-13T16:20:00Z'',
      source_name = ''Health Times'',
      url = ''#'',
      category = ''health''\<rparr>,
     \<lparr>title = ''Pakistan's Film Industry Sees Revival'',
      description = ''Cinema attendance and local film production have shown significant growth this year, indicating a revival of the Pakistani film industry.'',
      urlToImage = ''https://i.dawn.com/primary/2024/12/301615176f67f70.jpg?r=162500'',
      publishedAt = ''2023-07-13T09:30:00Z'',
      source_name = ''Entertainment PK'',
      url = ''#'',
      category = ''entertainment''\<rparr>,
     \<lparr>title = ''Tech Startups Attract Record Investments'',
      description = ''Pakistan's technology startups have attracted record levels of venture capital funding in the first half of 2023, signaling growing investor confidence.'',
      urlToImage = ''https://images.unsplash.com/photo-1553877522-43269d4ea984?ixlib=rb-4.0.3&ixid=MnwxMjA3fDB8MHxwaG90by1wYWdlfHx8fGVufDB8fHx8&auto=format&fit=crop&w=400&q=80'',
      publishedAt = ''2023-07-12T11:45:00Z'',
      source_name = ''Tech News PK'',
      url = ''#'',
      category = ''technology''\<rparr>]\<close>

text \<open>Lines 239--243: the articles a completed load stores for category \<open>cat\<close>.\<close>

definition load_articles :: "string \<Rightarrow> article list" where
  "load_articles cat =
     (if cat \<noteq> ''general'' then filter (\<lambda>a. category a = cat) mockNews else mockNews)"

subsection \<open>The Article Source contract\<close>

text \<open>
  Spec section 6: \<open>fetchArticles(category)\<close> returns the articles of that category,
  \<open>general\<close> meaning unfiltered. Stated over any table of articles, it is a filter whose
  predicate accepts everything for \<open>general\<close>.
\<close>

definition source_contract :: "article list \<Rightarrow> string \<Rightarrow> article list" where
  "source_contract table cat = filter (\<lambda>a. cat = ''general'' \<or> category a = cat) table"

lemma mockNews_length: "length mockNews = 6"
  by (simp add: mockNews_def)

lemma load_articles_contract: "load_articles cat = source_contract mockNews cat"
  by (simp add: load_articles_def source_contract_def)

lemma load_articles_category: "a \<in> set (load_articles cat) \<Longrightarrow> cat \<noteq> ''general'' \<Longrightarrow> category a = cat"
  by (simp add: load_articles_def)

lemma load_articles_in_mock: "set (load_articles cat) \<subseteq> set mockNews"
  by (auto simp: load_articles_def)

end
