(* ===== verification/Render.thy ===== *)
theory Render
  imports Articles "HOL-Library.Sublist"
begin

text \<open>
  The Grid Renderer, \<open>displayNews\<close> (\<open>src/script.js\<close>, lines 266--299). The news
  grid's content is a list of child nodes: the single "no results" placeholder, or one
  \<open><article class="news-card">\<close> element per article, appended in input order. The
  markup of each node is the template literal of the source, reproduced character for
  character (\<open>template_line n s\<close> is a line break, \<open>n\<close> spaces of indentation and
  \<open>s\<close>). \<open>new Date(publishedAt).toLocaleDateString()\<close> depends on the viewer's
  locale, so the renderer takes it as the parameter \<open>localeDate\<close>.
\<close>

datatype grid_node = NoResults | NewsCard article

definition displayNews :: "article list \<Rightarrow> grid_node list" where
  "displayNews xs = (if length xs = 0 then [NoResults] else map NewsCard xs)"

definition template_line :: "nat \<Rightarrow> string \<Rightarrow> string" where
  "template_line n s = CHR 0x0A # replicate n (CHR '' '') @ s"

definition no_results_html :: string where
  \<open>no_results_html = concat [
     template_line 12 ''<div class="error-message" style="grid-column: 1 / -1;">'',
     template_line 16 ''<i class="fas fa-search"></i>'',
     template_line 16 ''<p>No news articles found. Try a different search term.</p>'',
     template_line 12 ''</div>'',
     template_line 8 []]\<close>

definition card_html :: "(string \<Rightarrow> string) \<Rightarrow> article \<Rightarrow> string" where
  \<open>card_html localeDate a = concat [
     template_line 12 (''<img src="'' @ urlToImage a @ ''" alt="'' @ title a @ ''" class="news-img">''),
     template_line 12 ''<div class="news-content">'',
     template_line 16 (''<span class="category">'' @ category a @ ''</span>''),
     template_line 16 (''<h3>'' @ title a @ ''</h3>''),
     template_line 16 (''<p>'' @ description a @ ''</p>''),
     template_line 16 (''<a href="'' @ url a @ ''" target="_blank" class="read-more">Read More</a>''),
     template_line 16 ''<div class="news-meta">'',
     template_line 20 (''<span>'' @ source_name a @ ''</span>''),
     template_line 20 (''<span>'' @ localeDate (publishedAt a) @ ''</span>''),
     template_line 16 ''</div>'',
     template_line 12 ''</div>'',
     template_line 8 []]\<close>

primrec node_html :: "(string \<Rightarrow> string) \<Rightarrow> grid_node \<Rightarrow> string" where
  "node_html localeDate NoResults = no_results_html"
| \<open>node_html localeDate (NewsCard a) =
     ''<article class="news-card">'' @ card_html localeDate a @ ''</article>''\<close>

text \<open>The markup the code writes into \<open>#news-grid\<close>: its children's template text in
  order. For field values without markup characters this is also what the browser
  serialises back (it would escape \<open>&\<close> in attribute values).\<close>

definition grid_html :: "(string \<Rightarrow> string) \<Rightarrow> grid_node list \<Rightarrow> string" where
  "grid_html localeDate nodes = concat (map (node_html localeDate) nodes)"

text \<open>The cards of a grid, in order, and the number of placeholders.\<close>

fun cards_of :: "grid_node list \<Rightarrow> article list" where
  "cards_of [] = []"
| "cards_of (NoResults # ns) = cards_of ns"
| "cards_of (NewsCard a # ns) = a # cards_of ns"

definition placeholders :: "grid_node list \<Rightarrow> nat" where
  "placeholders ns = count_list ns NoResults"

subsection \<open>Reading the grid back\<close>

text \<open>What a reader of the grid's markup takes for the headlines: the text between each
  \<open><h3>\<close> and the next \<open><\<close>, read from the markup the code writes
  (\<open>grid_html\<close>). \<open>markup_free\<close> says that no field of an article, nor the locale's
  date text, contains \<open><\<close>.\<close>

function (sequential) h3_texts :: "string \<Rightarrow> string list" where
  "h3_texts [] = []"
| "h3_texts (c # cs) =
     (if c = CHR ''<'' \<and> take 3 cs = ''h3>''
      then takeWhile (\<lambda>x. x \<noteq> CHR ''<'') (drop 3 cs) # h3_texts (dropWhile (\<lambda>x. x \<noteq> CHR ''<'') (drop 3 cs))
      else h3_texts cs)"
  by pat_completeness auto
termination
  by (relation "measure length") (auto simp: less_Suc_eq_le intro: order_trans [OF length_dropWhile_le])

definition markup_free :: "(string \<Rightarrow> string) \<Rightarrow> article \<Rightarrow> bool" where
  "markup_free localeDate a \<longleftrightarrow>
     CHR ''<'' \<notin> set (urlToImage a @ title a @ category a @ description a @ url a @ source_name a @
       localeDate (publishedAt a))"

subsection \<open>Lemmas\<close>

lemma cards_of_map_NewsCard [simp]: "cards_of (map NewsCard xs) = xs"
  by (induction xs) simp_all

lemma placeholders_map_NewsCard [simp]: "placeholders (map NewsCard xs) = 0"
  by (induction xs) (simp_all add: placeholders_def)

lemma placeholders_NoResults [simp]: "placeholders [NoResults] = 1"
  by (simp add: placeholders_def)

lemma displayNews_Nil [simp]: "displayNews [] = [NoResults]"
  by (simp add: displayNews_def)

lemma displayNews_ne [simp]: "xs \<noteq> [] \<Longrightarrow> displayNews xs = map NewsCard xs"
  by (simp add: displayNews_def)

lemma displayNews_cases: "displayNews xs = [NoResults] \<or> displayNews xs = map NewsCard xs"
  by (simp add: displayNews_def)

lemma cards_of_displayNews [simp]: "cards_of (displayNews xs) = xs"
  by (cases "xs = []") simp_all

lemma sublist_concat_member: "sublist s t \<Longrightarrow> t \<in> set ts \<Longrightarrow> sublist s (concat ts)"
proof -
  assume "sublist s t" and "t \<in> set ts"
  then obtain ps ss where t: "t = ps @ s @ ss" by (auto simp: sublist_def)
  from \<open>t \<in> set ts\<close> obtain as bs where "ts = as @ t # bs" by (metis split_list)
  with t have "concat ts = (concat as @ ps) @ s @ (ss @ concat bs)" by simp
  then show ?thesis by (metis sublist_appendI)
qed

lemma sublist_template_line: "sublist s (template_line n (p @ s @ q))"
proof -
  have "template_line n (p @ s @ q) = (CHR 0x0A # replicate n (CHR '' '') @ p) @ s @ q"
    by (simp add: template_line_def)
  then show ?thesis by (metis sublist_appendI)
qed

lemma h3_texts_skip [simp]: "CHR ''<'' \<notin> set x \<Longrightarrow> h3_texts (x @ r) = h3_texts r"
  by (induction x) auto

lemma h3_texts_no_lt [simp]: "CHR ''<'' \<notin> set x \<Longrightarrow> h3_texts x = []"
  using h3_texts_skip [of x "[]"] by simp

lemma takeWhile_no_lt [simp]:
  "CHR ''<'' \<notin> set x \<Longrightarrow> takeWhile (\<lambda>c. c \<noteq> CHR ''<'') (x @ r) = x @ takeWhile (\<lambda>c. c \<noteq> CHR ''<'') r"
  by (induction x) auto

lemma dropWhile_no_lt [simp]:
  "CHR ''<'' \<notin> set x \<Longrightarrow> dropWhile (\<lambda>c. c \<noteq> CHR ''<'') (x @ r) = dropWhile (\<lambda>c. c \<noteq> CHR ''<'') r"
  by (induction x) auto

lemma h3_texts_node:
  assumes "markup_free localeDate a"
  shows "h3_texts (node_html localeDate (NewsCard a) @ r) = title a # h3_texts r"
  using assms by (simp add: markup_free_def card_html_def template_line_def)


lemma h3_texts_cards:
  "list_all (markup_free localeDate) xs \<Longrightarrow>
   h3_texts (concat (map (node_html localeDate) (map NewsCard xs))) = map title xs"
proof (induction xs)
  case Nil
  then show ?case by simp
next
  case (Cons a xs)
  then have "markup_free localeDate a" and "list_all (markup_free localeDate) xs" by simp_all
  with Cons.IH show ?case by (simp add: h3_texts_node del: node_html.simps)
qed

subsection \<open>Properties\<close>

text \<open>Claim C8. Rendering an empty list gives exactly one placeholder
  and no card; rendering \<open>N > 0\<close> articles gives exactly \<open>N\<close> cards, in input
  order, and no placeholder.\<close>

theorem displayNews_shape:
  "cards_of (displayNews xs) = xs \<and>
   placeholders (displayNews xs) = (if xs = [] then 1 else 0) \<and>
   length (displayNews xs) = max 1 (length xs)"
proof (cases "xs = []")
  case True
  then show ?thesis by simp
next
  case False
  then have "max 1 (length xs) = length xs" by (simp add: Suc_leI max_def)
  with False show ?thesis by simp
qed

text \<open>Claim C28. The card template interpolates the article's title,
  description, source name and category into the markup as they are: no HTML escaping
  happens, so markup inside feed data becomes part of the page.\<close>

theorem card_html_unescaped:
  "sublist (title a) (card_html localeDate a) \<and> sublist (description a) (card_html localeDate a) \<and>
   sublist (source_name a) (card_html localeDate a) \<and> sublist (category a) (card_html localeDate a)"
proof (intro conjI)
  show "sublist (title a) (card_html localeDate a)"
    unfolding card_html_def
    by (rule sublist_concat_member [OF sublist_template_line [of _ 16 "''<h3>''" "''</h3>''"]]) simp
  show "sublist (description a) (card_html localeDate a)"
    unfolding card_html_def
    by (rule sublist_concat_member [OF sublist_template_line [of _ 16 "''<p>''" "''</p>''"]]) simp
  show "sublist (source_name a) (card_html localeDate a)"
    unfolding card_html_def
    by (rule sublist_concat_member [OF sublist_template_line [of _ 20 "''<span>''" "''</span>''"]]) simp
  show "sublist (category a) (card_html localeDate a)"
    unfolding card_html_def
    by (rule sublist_concat_member
        [OF sublist_template_line [of _ 16 \<open>''<span class="category">''\<close> "''</span>''"]]) simp
qed

text \<open>Claim C17. Rendering and reading back round-trip the headlines: when no article
  field (nor the locale's date text) contains \<open><\<close>, the \<open><h3>\<close> texts of the
  grid's markup are the titles of the rendered articles, in order, and there are none
  for the no-results placeholder.\<close>

theorem grid_headlines_roundtrip:
  assumes "list_all (markup_free localeDate) xs"
  shows "h3_texts (grid_html localeDate (displayNews xs)) = map title xs"
proof (cases "xs = []")
  case True
  then show ?thesis by (simp add: grid_html_def no_results_html_def template_line_def)
next
  case False
  with h3_texts_cards [OF assms] show ?thesis by (simp add: grid_html_def)
qed

subsection \<open>Witnesses\<close>

theorem grid_headlines_roundtrip_witness:
  "list_all (markup_free (\<lambda>_. ''7/14/2023'')) (load_articles ''technology'') \<and>
   h3_texts (grid_html (\<lambda>_. ''7/14/2023'') (displayNews (load_articles ''technology''))) =
     [''New Technology Park Inaugurated in Islamabad'', ''Tech Startups Attract Record Investments'']"
proof -
  have m: "list_all (markup_free (\<lambda>_. ''7/14/2023'')) (load_articles ''technology'')"
    by (simp add: load_articles_def mockNews_def markup_free_def)
  have t: "map title (load_articles ''technology'') =
      [''New Technology Park Inaugurated in Islamabad'', ''Tech Startups Attract Record Investments'']"
    by (simp add: load_articles_def mockNews_def)
  from grid_headlines_roundtrip [OF m] m t show ?thesis by simp
qed

end
