(* ===== verification/Feed.thy ===== *)
theory Feed
  imports Text Render
begin

text \<open>
  The News Feed Loader, the category filter and the search of \<open>src/script.js\<close>. The
  record \<open>feed\<close> holds the globals \<open>currentCategory\<close> and \<open>articles\<close>
  (lines 22, 24) with the DOM state these handlers touch: the \<open>active\<close> class of the
  \<open>.category-btn\<close> buttons (with their \<open>data-category\<close>), the children of
  \<open>#news-grid\<close>, the inline display of \<open>#news-loading\<close> and \<open>#news-error\<close>,
  the value of \<open>#search-input\<close> and the \<open>console.error\<close> output.

  \<open>fetchNews\<close> (lines 167--253) is \<open>async\<close>: it runs up to its
  \<open>await\<close> (\<open>fetchNews_start\<close>), then yields until its one-second timer fires.
  Its continuation captures no local variable (the mock table and the category filter
  come after the \<open>await\<close>), so the loads in flight are a counter
  \<open>pending_loads\<close>, and each timer that fires runs \<open>fetchNews_resume\<close> on the
  state of that moment. The continuation is a \<open>try\<close> block (\<open>fetchNews_try\<close>),
  its \<open>catch\<close> (\<open>fetchNews_catch\<close>) and its \<open>finally\<close> (hide the loading
  indicator).
\<close>

record feed =
  currentCategory :: string
  articles :: "article list"
  category_btns :: "(string \<times> bool) list"
  news_grid :: "grid_node list"
  loading_display :: display
  error_display :: display
  search_value :: string
  pending_loads :: nat
  console_errors :: "string list"

subsection \<open>fetchNews\<close>

text \<open>Lines 168--170 and the \<open>await\<close> of line 178.\<close>

definition fetchNews_start :: "feed \<Rightarrow> feed" where
  "fetchNews_start f =
     f\<lparr>news_grid := [], loading_display := DisplayFlex, error_display := DisplayNone,
       pending_loads := Suc (pending_loads f)\<rparr>"

text \<open>Lines 181--245, the body of the \<open>try\<close> after the \<open>await\<close>: filter the mock
  table by the current category, store and render the result. Nothing in it can throw.\<close>

definition fetchNews_try :: "feed \<Rightarrow> js_error + feed" where
  "fetchNews_try f =
     (let arts = load_articles (currentCategory f)
      in Inr (f\<lparr>articles := arts, news_grid := displayNews arts\<rparr>))"

text \<open>Lines 247--249: the \<open>catch\<close> logs and shows the error panel.\<close>

definition fetchNews_catch :: "feed \<Rightarrow> feed" where
  "fetchNews_catch f =
     f\<lparr>console_errors := console_errors f @ [''Error fetching news:''],
       error_display := DisplayBlock\<rparr>"

text \<open>The continuation of one load: \<open>try\<close>, \<open>catch\<close>, then \<open>finally\<close> (line 251).\<close>

definition fetchNews_resume :: "feed \<Rightarrow> feed" where
  "fetchNews_resume f =
     (let f' = (case fetchNews_try f of Inr g \<Rightarrow> g | Inl e \<Rightarrow> fetchNews_catch f)
      in f'\<lparr>loading_display := DisplayNone, pending_loads := pending_loads f - 1\<rparr>)"

subsection \<open>Search\<close>

text \<open>Lines 257--260: the match of one article against the query.\<close>

definition matches :: "string \<Rightarrow> article \<Rightarrow> bool" where
  "matches query a \<longleftrightarrow>
     str_includes (toLowerCase (title a)) (toLowerCase query) \<or>
     str_includes (toLowerCase (description a)) (toLowerCase query)"

text \<open>\<open>searchNews\<close>, lines 256--263: filter the loaded articles, render the result.\<close>

definition searchNews :: "string \<Rightarrow> feed \<Rightarrow> feed" where
  "searchNews query f = f\<lparr>news_grid := displayNews (filter (matches query) (articles f))\<rparr>"

text \<open>The click handler of \<open>#search-btn\<close> (lines 106--111) and the keypress handler
  of \<open>#search-input\<close> (lines 113--120), whose body repeats the click handler's
  under the guard \<open>e.key === 'Enter'\<close>.\<close>

definition search_click :: "feed \<Rightarrow> feed" where
  "search_click f = (let query = trim (search_value f) in if query \<noteq> [] then searchNews query f else f)"

definition search_keypress :: "string \<Rightarrow> feed \<Rightarrow> feed" where
  "search_keypress key f =
     (if key = ''Enter'' then
        (let query = trim (search_value f) in if query \<noteq> [] then searchNews query f else f)
      else f)"

text \<open>Typing into \<open>#search-input\<close> sets its value.\<close>

definition search_input :: "string \<Rightarrow> feed \<Rightarrow> feed" where
  "search_input v f = f\<lparr>search_value := v\<rparr>"

subsection \<open>Category buttons and retry\<close>

text \<open>The click handler of the \<open>i\<close>-th \<open>.category-btn\<close> (lines 97--102).\<close>

definition category_click :: "nat \<Rightarrow> feed \<Rightarrow> feed" where
  "category_click i f =
     fetchNews_start
       (f\<lparr>category_btns := set_active_at i (clear_active (category_btns f)),
          currentCategory := fst (category_btns f ! i)\<rparr>)"

text \<open>Line 302: \<open>#retry-btn\<close> calls \<open>fetchNews\<close>.\<close>

definition retry_click :: "feed \<Rightarrow> feed" where
  "retry_click f = fetchNews_start f"

subsection \<open>Invariants\<close>

text \<open>Exactly one category button is active and its \<open>data-category\<close> is the
  current category.\<close>

definition category_sync :: "feed \<Rightarrow> bool" where
  "category_sync f \<longleftrightarrow> active_ids (category_btns f) = [currentCategory f]"

text \<open>When no load is in flight, the loaded articles are those of the current category.\<close>

definition loaded_current :: "feed \<Rightarrow> bool" where
  "loaded_current f \<longleftrightarrow> (pending_loads f = 0 \<longrightarrow> articles f = load_articles (currentCategory f))"

text \<open>The grid is the placeholder alone or cards only, and the cards are loaded
  articles in their loaded order.\<close>

definition grid_from_loaded :: "feed \<Rightarrow> bool" where
  "grid_from_loaded f \<longleftrightarrow>
     (news_grid f = [NoResults] \<or> news_grid f = map NewsCard (cards_of (news_grid f))) \<and>
     subseq (cards_of (news_grid f)) (articles f)"

subsection \<open>The feed's operations as one step relation\<close>

text \<open>Every handler of the script changes the feed state by one of these steps (or not
  at all); the application theory proves that of its \<open>dispatch\<close>, and the feed's
  invariants are proved once, over this relation.\<close>

inductive feed_step :: "feed \<Rightarrow> feed \<Rightarrow> bool" where
  idle: "feed_step f f"
| fetch: "feed_step f (fetchNews_start f)"
| category: "i < length (category_btns f) \<Longrightarrow> feed_step f (category_click i f)"
| input: "feed_step f (search_input v f)"
| click: "feed_step f (search_click f)"
| key: "feed_step f (search_keypress k f)"
| resume: "0 < pending_loads f \<Longrightarrow> feed_step f (fetchNews_resume f)"

subsection \<open>Lemmas\<close>

lemmas feed_ops_defs = fetchNews_start_def fetchNews_resume_def fetchNews_try_def
  fetchNews_catch_def searchNews_def search_click_def search_keypress_def search_input_def
  category_click_def retry_click_def

lemma fetchNews_try_Inr: "fetchNews_try f = Inr (f\<lparr>articles := load_articles (currentCategory f),
    news_grid := displayNews (load_articles (currentCategory f))\<rparr>)"
  by (simp add: fetchNews_try_def Let_def)

lemma fetchNews_resume_eq:
  "fetchNews_resume f =
     f\<lparr>articles := load_articles (currentCategory f),
       news_grid := displayNews (load_articles (currentCategory f)),
       loading_display := DisplayNone, pending_loads := pending_loads f - 1\<rparr>"
  by (simp add: fetchNews_resume_def fetchNews_try_Inr Let_def)

lemma search_keypress_Enter: "search_keypress ''Enter'' f = search_click f"
  by (simp add: search_keypress_def search_click_def)

lemma search_keypress_other: "key \<noteq> ''Enter'' \<Longrightarrow> search_keypress key f = f"
  by (simp add: search_keypress_def)

lemma category_click_names [simp]:
  "map fst (category_btns (category_click i f)) = map fst (category_btns f)"
  by (simp add: category_click_def fetchNews_start_def)

lemma category_click_fields:
  "currentCategory (category_click i f) = fst (category_btns f ! i)"
  "pending_loads (category_click i f) = Suc (pending_loads f)"
  by (simp_all add: category_click_def fetchNews_start_def)

lemma category_btn_name:
  assumes "map fst (category_btns g) = map fst (category_btns f)" "j < length (category_btns f)"
  shows "fst (category_btns g ! j) = fst (category_btns f ! j)"
  by (metis assms length_map nth_map)

lemma matches_sublist:
  "matches query a \<longleftrightarrow>
     sublist (toLowerCase query) (toLowerCase (title a)) \<or>
     sublist (toLowerCase query) (toLowerCase (description a))"
  by (simp add: matches_def str_includes_eq_sublist)

lemma searchNews_frame:
  "articles (searchNews q f) = articles f" "currentCategory (searchNews q f) = currentCategory f"
  "pending_loads (searchNews q f) = pending_loads f" "category_btns (searchNews q f) = category_btns f"
  "error_display (searchNews q f) = error_display f"
  by (simp_all add: searchNews_def)

lemma search_handlers_frame:
  "articles (search_click f) = articles f \<and> currentCategory (search_click f) = currentCategory f \<and>
   pending_loads (search_click f) = pending_loads f \<and> category_btns (search_click f) = category_btns f \<and>
   error_display (search_click f) = error_display f"
  "articles (search_keypress k f) = articles f \<and> currentCategory (search_keypress k f) = currentCategory f \<and>
   pending_loads (search_keypress k f) = pending_loads f \<and> category_btns (search_keypress k f) = category_btns f \<and>
   error_display (search_keypress k f) = error_display f"
  by (simp_all add: search_click_def search_keypress_def Let_def searchNews_frame)

text \<open>The feed invariants hold across every step.\<close>

lemma feed_step_error_display:
  "feed_step f f' \<Longrightarrow> error_display f' = error_display f \<or> error_display f' = DisplayNone"
  by (induction rule: feed_step.induct)
     (simp_all add: fetchNews_start_def category_click_def search_input_def search_handlers_frame
       fetchNews_resume_eq)

lemma feed_step_loaded_current:
  "feed_step f f' \<Longrightarrow> loaded_current f \<Longrightarrow> loaded_current f'"
  by (induction rule: feed_step.induct)
     (simp_all add: loaded_current_def fetchNews_start_def category_click_def search_input_def
       search_handlers_frame fetchNews_resume_eq)

lemma feed_step_category_sync:
  "feed_step f f' \<Longrightarrow> category_sync f \<Longrightarrow> category_sync f'"
  by (induction rule: feed_step.induct)
     (simp_all add: category_sync_def fetchNews_start_def category_click_def search_input_def
       search_handlers_frame fetchNews_resume_eq active_ids_set_active_at_clear)

lemma grid_from_loaded_displayNews:
  "subseq xs (articles f) \<Longrightarrow> news_grid f = displayNews xs \<Longrightarrow> grid_from_loaded f"
  using displayNews_cases [of xs] by (auto simp: grid_from_loaded_def)

lemma grid_from_loaded_empty: "news_grid f = [] \<Longrightarrow> grid_from_loaded f"
  by (simp add: grid_from_loaded_def)

lemma searchNews_grid: "grid_from_loaded (searchNews q f)"
  by (rule grid_from_loaded_displayNews [of "filter (matches q) (articles f)"]) (simp_all add: searchNews_def)

lemma search_handlers_grid:
  "grid_from_loaded f \<Longrightarrow> grid_from_loaded (search_click f)"
  "grid_from_loaded f \<Longrightarrow> grid_from_loaded (search_keypress k f)"
  by (simp_all add: search_click_def search_keypress_def Let_def searchNews_grid)

lemma feed_step_grid_from_loaded:
  "feed_step f f' \<Longrightarrow> grid_from_loaded f \<Longrightarrow> grid_from_loaded f'"
proof (induction rule: feed_step.induct)
  case (click f)
  then show ?case by (rule search_handlers_grid(1))
next
  case (key f k)
  then show ?case by (rule search_handlers_grid(2))
next
  case (resume f)
  show ?case
    by (rule grid_from_loaded_displayNews [of "load_articles (currentCategory f)"])
       (simp_all add: fetchNews_resume_eq)
qed (simp_all add: fetchNews_start_def category_click_def search_input_def grid_from_loaded_def)

text \<open>A query that occurs in a longer one matches every article the longer one matches.\<close>

lemma matches_mono:
  assumes "sublist q1 q2" and "matches q2 a"
  shows "matches q1 a"
proof -
  have "sublist (toLowerCase q1) (toLowerCase q2)"
    using map_mono_sublist [OF assms(1)] by (simp add: toLowerCase_def)
  with assms(2) show ?thesis
    by (auto simp: matches_sublist intro: sublist_order.order.trans)
qed

subsection \<open>Properties\<close>

text \<open>Claim C2. Two rapid category clicks start two
  overlapping loads. Because \<open>fetchNews\<close> reads \<open>currentCategory\<close> only after its
  \<open>await\<close>, the first load to complete already stores and renders the second click's
  category, and the second completion renders the same articles again: no stale
  category is ever shown, and the loading indicator is hidden at the first completion
  while a load is still in flight. Spec section 5 describes a last-write-wins race that
  can show a stale category.\<close>

theorem overlapping_loads_show_latest:
  assumes "i < length (category_btns f)" and "j < length (category_btns f)"
  defines "f2 \<equiv> category_click j (category_click i f)"
  shows "articles (fetchNews_resume f2) = load_articles (fst (category_btns f ! j)) \<and>
    news_grid (fetchNews_resume f2) = displayNews (load_articles (fst (category_btns f ! j))) \<and>
    loading_display (fetchNews_resume f2) = DisplayNone \<and>
    pending_loads (fetchNews_resume f2) = Suc (pending_loads f) \<and>
    articles (fetchNews_resume (fetchNews_resume f2)) = load_articles (fst (category_btns f ! j)) \<and>
    pending_loads (fetchNews_resume (fetchNews_resume f2)) = pending_loads f"
proof -
  have "fst (category_btns (category_click i f) ! j) = fst (category_btns f ! j)"
    using assms(2) by (intro category_btn_name) simp_all
  then have cat: "currentCategory f2 = fst (category_btns f ! j)"
    by (simp add: f2_def category_click_fields)
  have pend: "pending_loads f2 = Suc (Suc (pending_loads f))"
    by (simp add: f2_def category_click_fields)
  show ?thesis
    using cat pend by (simp add: fetchNews_resume_eq)
qed

text \<open>Claim C4. After a click on a category button exactly one button
  is marked active, and its \<open>data-category\<close> is the new \<open>currentCategory\<close>; a load
  is started with the grid cleared, the loading indicator shown and the error panel
  hidden.\<close>

theorem category_click_sync:
  assumes "i < length (category_btns f)"
  shows "category_sync (category_click i f) \<and> currentCategory (category_click i f) = fst (category_btns f ! i) \<and>
    news_grid (category_click i f) = [] \<and> loading_display (category_click i f) = DisplayFlex \<and>
    error_display (category_click i f) = DisplayNone \<and> pending_loads (category_click i f) = Suc (pending_loads f)"
  using assms
  by (simp add: category_sync_def category_click_def fetchNews_start_def active_ids_set_active_at_clear)

text \<open>Claim C9. A search renders exactly the loaded articles
  that match the query, in their loaded order (the placeholder when none matches), and
  leaves the loaded articles and everything else untouched.\<close>

theorem searchNews_filters_loaded:
  "cards_of (news_grid (searchNews q f)) = filter (matches q) (articles f) \<and>
   placeholders (news_grid (searchNews q f)) = (if filter (matches q) (articles f) = [] then 1 else 0) \<and>
   (searchNews q f)\<lparr>news_grid := news_grid f\<rparr> = f"
  by (cases "filter (matches q) (articles f) = []") (simp_all add: searchNews_def)

text \<open>Claim C10. A second search filters the loaded articles, not
  the first search's output: searching \<open>q1\<close> and then \<open>q2\<close> renders what searching
  \<open>q2\<close> alone renders.\<close>

theorem search_twice_from_loaded: "searchNews q2 (searchNews q1 f) = searchNews q2 f"
  by (simp add: searchNews_def)

text \<open>Claim C11. The matching rule is the spec's: the
  lower-cased query occurs as a contiguous substring of the lower-cased title or of the
  lower-cased description; so queries that differ only in letter case match the same
  articles.\<close>

theorem matches_case_insensitive_substring:
  "(matches q a \<longleftrightarrow>
     sublist (toLowerCase q) (toLowerCase (title a)) \<or> sublist (toLowerCase q) (toLowerCase (description a))) \<and>
   (toLowerCase q = toLowerCase q' \<longrightarrow> matches q a = matches q' a)"
  by (simp add: matches_sublist)

text \<open>Claim C13. With an empty or white-space-only search box, neither
  the search button nor the Enter key changes anything; keys other than Enter never do.\<close>

theorem blank_search_noop:
  assumes "\<forall>c \<in> set (search_value f). js_whitespace c"
  shows "search_click f = f \<and> search_keypress key f = f"
proof -
  from assms have "trim (search_value f) = []" by (simp add: trim_Nil_iff)
  then show ?thesis by (simp add: search_click_def search_keypress_def)
qed

text \<open>Claim C12. Typing more narrows the search: when the query \<open>q1\<close> occurs
  in the query \<open>q2\<close> (for instance \<open>q2\<close> extends \<open>q1\<close>), the cards rendered for
  \<open>q2\<close> are among those rendered for \<open>q1\<close>, in the same order. This is what makes
  the match a substring match rather than a prefix or whole-word one.\<close>

theorem search_narrowing:
  assumes "sublist q1 q2"
  shows "subseq (cards_of (news_grid (searchNews q2 f))) (cards_of (news_grid (searchNews q1 f)))"
proof -
  have "filter (matches q2) (articles f) = filter (matches q1) (filter (matches q2) (articles f))"
    using matches_mono [OF assms] by (auto intro: filter_cong)
  then have "subseq (filter (matches q2) (articles f)) (filter (matches q1) (articles f))"
    by (metis subseq_filter subseq_filter_left)
  then show ?thesis by (simp add: searchNews_def)
qed

text \<open>Claim C14. The search button and the Enter key ignore white space around the
  query (line 107's \<open>trim\<close>): with blanks before and after it, they do exactly what
  they do for the bare query, apart from the text left in the search box.\<close>

theorem search_ignores_surrounding_blanks:
  assumes "list_all js_whitespace ps" and "list_all js_whitespace ss"
  shows "search_click (f\<lparr>search_value := ps @ q @ ss\<rparr>) =
      (search_click (f\<lparr>search_value := q\<rparr>))\<lparr>search_value := ps @ q @ ss\<rparr> \<and>
    search_keypress ''Enter'' (f\<lparr>search_value := ps @ q @ ss\<rparr>) =
      (search_keypress ''Enter'' (f\<lparr>search_value := q\<rparr>))\<lparr>search_value := ps @ q @ ss\<rparr>"
  using trim_blank_around [OF assms, of q]
  by (simp add: search_click_def search_keypress_def Let_def searchNews_def)

end
