(* ===== verification/Slider.thy ===== *)
theory Slider
  imports Prelude
begin

text \<open>
  The Hero Slider (\<open>src/script.js\<close>, lines 123--146). The record holds the global
  \<open>currentSlide\<close> (line 23, a JavaScript number, here an \<open>int\<close>: it only moves by
  one and is reset into range, so it never leaves the small integers) and the
  \<open>active\<close> flags of the \<open>.hero-slide\<close> elements in document order.

  \<open>showSlide(index)\<close> first removes \<open>active\<close> from every slide and then reads
  \<open>heroSlides[index]\<close>; an index outside the node list yields \<open>undefined\<close>, and
  \<open>undefined.classList\<close> throws a \<open>TypeError\<close> with the slides already cleared and
  \<open>currentSlide\<close> not yet written. With no slides at all every handler throws.
\<close>

record slider =
  currentSlide :: int
  slides :: "bool list"

definition showSlide :: "int \<Rightarrow> slider \<Rightarrow> slider outcome" where
  "showSlide index s =
     (let s1 = s\<lparr>slides := map (\<lambda>_. False) (slides s)\<rparr>
      in if 0 \<le> index \<and> index < int (length (slides s1))
         then Ok (s1\<lparr>slides := (slides s1)[nat index := True], currentSlide := index\<rparr>)
         else Threw TypeError s1)"

text \<open>Lines 129--133.\<close>

definition prev_click :: "slider \<Rightarrow> slider outcome" where
  "prev_click s =
     (let newSlide = currentSlide s - 1;
          newSlide = (if newSlide < 0 then int (length (slides s)) - 1 else newSlide)
      in showSlide newSlide s)"

text \<open>Lines 135--139.\<close>

definition next_click :: "slider \<Rightarrow> slider outcome" where
  "next_click s =
     (let newSlide = currentSlide s + 1;
          newSlide = (if newSlide \<ge> int (length (slides s)) then 0 else newSlide)
      in showSlide newSlide s)"

text \<open>Lines 142--146: the \<open>setInterval\<close> callback, every 5000 ms.\<close>

definition auto_advance :: "slider \<Rightarrow> slider outcome" where
  "auto_advance s =
     (let newSlide = currentSlide s + 1;
          newSlide = (if newSlide \<ge> int (length (slides s)) then 0 else newSlide)
      in showSlide newSlide s)"

subsection \<open>Abstract slider\<close>

text \<open>
  Spec section 4.6: a circular sequence of \<open>n\<close> slides; "next" and "previous" move the
  index by one modulo \<open>n\<close> and exactly the slide at the index is shown. The abstract
  state is the index; \<open>shown n i\<close> is the display the index stands for.
\<close>

definition shown :: "nat \<Rightarrow> int \<Rightarrow> bool list" where
  "shown n i = (replicate n False)[nat i := True]"

definition slide_next_spec :: "nat \<Rightarrow> int \<Rightarrow> int" where
  "slide_next_spec n i = (i + 1) mod int n"

definition slide_prev_spec :: "nat \<Rightarrow> int \<Rightarrow> int" where
  "slide_prev_spec n i = (i - 1) mod int n"

definition slide_in_range :: "slider \<Rightarrow> bool" where
  "slide_in_range s \<longleftrightarrow> (slides s \<noteq> [] \<longrightarrow> 0 \<le> currentSlide s \<and> currentSlide s < int (length (slides s)))"

text \<open>Exactly the slide at \<open>currentSlide\<close> carries \<open>active\<close>.\<close>

definition one_slide_active :: "slider \<Rightarrow> bool" where
  "one_slide_active s \<longleftrightarrow> (slides s \<noteq> [] \<longrightarrow> active_indices (slides s) = [nat (currentSlide s)])"

subsection \<open>Lemmas\<close>

lemma map_False_replicate: "map (\<lambda>_. False) xs = replicate (length xs) False"
  by (simp add: map_replicate_const)

lemma showSlide_in_range:
  "0 \<le> i \<Longrightarrow> i < int (length (slides s)) \<Longrightarrow>
   showSlide i s = Ok (s\<lparr>slides := shown (length (slides s)) i, currentSlide := i\<rparr>)"
  by (simp add: showSlide_def shown_def map_False_replicate)

lemma showSlide_out_of_range:
  "\<not> (0 \<le> i \<and> i < int (length (slides s))) \<Longrightarrow>
   showSlide i s = Threw TypeError (s\<lparr>slides := replicate (length (slides s)) False\<rparr>)"
  by (simp add: showSlide_def map_False_replicate Let_def)

lemma shown_length [simp]: "length (shown n i) = n"
  by (simp add: shown_def)

lemma active_indices_shown: "0 \<le> i \<Longrightarrow> i < int n \<Longrightarrow> active_indices (shown n i) = [nat i]"
  by (simp add: shown_def active_indices_single)

lemma auto_advance_is_next: "auto_advance s = next_click s"
  by (simp add: auto_advance_def next_click_def)

lemma showSlide_length [simp]: "length (slides (final_state (showSlide i s))) = length (slides s)"
  by (simp add: showSlide_def Let_def)

lemma showSlide_keeps_in_range: "slide_in_range s \<Longrightarrow> slide_in_range (final_state (showSlide i s))"
  by (auto simp: showSlide_def Let_def slide_in_range_def)

text \<open>The source's wrap-around tests compute the modular successor and predecessor.\<close>

lemma wrap_next_mod:
  assumes "0 \<le> c" "c < int n"
  shows "(if c + 1 \<ge> int n then 0 else c + 1) = (c + 1) mod int n"
proof (cases "c + 1 \<ge> int n")
  case True
  with assms have "c + 1 = int n" by simp
  then show ?thesis by simp
next
  case False
  with assms show ?thesis by simp
qed

lemma wrap_prev_mod:
  assumes "0 \<le> c" "c < int n"
  shows "(if c - 1 < 0 then int n - 1 else c - 1) = (c - 1) mod int n"
proof (cases "c - 1 < 0")
  case True
  with assms have c0: "c = 0" by simp
  have "(c - 1) mod int n = (c - 1 + int n) mod int n"
    by (simp only: mod_add_self2)
  also from c0 have "c - 1 + int n = int n - 1" by simp
  also from assms have "(int n - 1) mod int n = int n - 1"
    by (intro mod_pos_pos_trivial) auto
  finally show ?thesis using True by simp
next
  case False
  with assms show ?thesis by simp
qed

lemma slide_specs_in_range:
  "0 < n \<Longrightarrow> 0 \<le> slide_next_spec n i \<and> slide_next_spec n i < int n"
  "0 < n \<Longrightarrow> 0 \<le> slide_prev_spec n i \<and> slide_prev_spec n i < int n"
  by (simp_all add: slide_next_spec_def slide_prev_spec_def)

lemma slide_in_rangeD:
  "slide_in_range s \<Longrightarrow> slides s \<noteq> [] \<Longrightarrow> 0 \<le> currentSlide s \<and> currentSlide s < int (length (slides s))"
  by (simp add: slide_in_range_def)

text \<open>From an index in range the wrap-around of "next" is the modular successor.\<close>

lemma next_click_wraps:
  assumes "slide_in_range s" and "slides s \<noteq> []"
  shows "next_click s = showSlide (slide_next_spec (length (slides s)) (currentSlide s)) s"
proof -
  from assms have c: "0 \<le> currentSlide s" "currentSlide s < int (length (slides s))"
    by (simp_all add: slide_in_rangeD)
  have "next_click s = showSlide (if currentSlide s + 1 \<ge> int (length (slides s)) then 0 else currentSlide s + 1) s"
    by (simp only: next_click_def Let_def)
  also have "\<dots> = showSlide (slide_next_spec (length (slides s)) (currentSlide s)) s"
    by (simp only: wrap_next_mod [OF c] slide_next_spec_def)
  finally show ?thesis .
qed

lemma prev_click_wraps:
  assumes "slide_in_range s" and "slides s \<noteq> []"
  shows "prev_click s = showSlide (slide_prev_spec (length (slides s)) (currentSlide s)) s"
proof -
  from assms have c: "0 \<le> currentSlide s" "currentSlide s < int (length (slides s))"
    by (simp_all add: slide_in_rangeD)
  have "prev_click s = showSlide (if currentSlide s - 1 < 0 then int (length (slides s)) - 1 else currentSlide s - 1) s"
    by (simp only: prev_click_def Let_def)
  also have "\<dots> = showSlide (slide_prev_spec (length (slides s)) (currentSlide s)) s"
    by (simp only: wrap_prev_mod [OF c] slide_prev_spec_def)
  finally show ?thesis .
qed

text \<open>A completed show leaves exactly the shown slide active.\<close>

lemma showSlide_one_active: "0 \<le> i \<Longrightarrow> i < int (length (slides s)) \<Longrightarrow> one_slide_active (final_state (showSlide i s))"
  by (simp add: showSlide_in_range one_slide_active_def active_indices_shown)

lemma slider_handlers_one_active:
  assumes "slide_in_range s" and "slides s \<noteq> []"
  shows "one_slide_active (final_state (prev_click s)) \<and> one_slide_active (final_state (next_click s)) \<and>
    one_slide_active (final_state (auto_advance s))"
proof -
  from assms have "0 < length (slides s)" by simp
  then have "0 \<le> slide_next_spec (length (slides s)) (currentSlide s)"
    "slide_next_spec (length (slides s)) (currentSlide s) < int (length (slides s))"
    "0 \<le> slide_prev_spec (length (slides s)) (currentSlide s)"
    "slide_prev_spec (length (slides s)) (currentSlide s) < int (length (slides s))"
    using slide_specs_in_range by auto
  then show ?thesis
    by (simp add: prev_click_wraps [OF assms] next_click_wraps [OF assms] auto_advance_is_next showSlide_one_active)
qed

text \<open>From an index in range, no slider handler throws.\<close>

lemma slider_handlers_Ok:
  assumes "slide_in_range s" and "slides s \<noteq> []"
  shows "\<not> threw (prev_click s) \<and> \<not> threw (next_click s) \<and> \<not> threw (auto_advance s)"
proof -
  from assms have "0 < length (slides s)" by simp
  then have "0 \<le> slide_next_spec (length (slides s)) (currentSlide s)"
    "slide_next_spec (length (slides s)) (currentSlide s) < int (length (slides s))"
    "0 \<le> slide_prev_spec (length (slides s)) (currentSlide s)"
    "slide_prev_spec (length (slides s)) (currentSlide s) < int (length (slides s))"
    using slide_specs_in_range by auto
  then show ?thesis
    by (simp add: prev_click_wraps [OF assms] next_click_wraps [OF assms] auto_advance_is_next showSlide_in_range)
qed

lemma slider_handlers_empty:
  "slides s = [] \<Longrightarrow> final_state (prev_click s) = s \<and> final_state (next_click s) = s \<and> final_state (auto_advance s) = s"
  by (simp add: prev_click_def next_click_def auto_advance_def showSlide_def Let_def)

lemma next_click_state:
  assumes "slide_in_range s" and "slides s \<noteq> []"
  shows "currentSlide (final_state (next_click s)) = slide_next_spec (length (slides s)) (currentSlide s) \<and>
    slides (final_state (next_click s)) = shown (length (slides s)) (slide_next_spec (length (slides s)) (currentSlide s))"
proof -
  from assms have "0 < length (slides s)" by simp
  then have "0 \<le> slide_next_spec (length (slides s)) (currentSlide s)"
    "slide_next_spec (length (slides s)) (currentSlide s) < int (length (slides s))"
    using slide_specs_in_range(1) by auto
  then show ?thesis by (simp add: next_click_wraps [OF assms] showSlide_in_range)
qed

subsection \<open>Properties\<close>

text \<open>Claim C15. "Next" refines the abstract slider: from an index in
  range, the next slide is the index plus one modulo the number of slides, it becomes
  \<open>currentSlide\<close>, and exactly that slide is active.\<close>

theorem next_click_refines:
  assumes "slide_in_range s" and "slides s \<noteq> []"
  shows "next_click s =
    Ok (s\<lparr>slides := shown (length (slides s)) (slide_next_spec (length (slides s)) (currentSlide s)),
          currentSlide := slide_next_spec (length (slides s)) (currentSlide s)\<rparr>)"
proof -
  define n where "n = length (slides s)"
  define j where "j = slide_next_spec n (currentSlide s)"
  from assms have "0 < n" by (simp add: n_def)
  then have j: "0 \<le> j" "j < int n"
    using slide_specs_in_range(1) by (auto simp: j_def)
  have "next_click s = showSlide j s"
    using next_click_wraps [OF assms] by (simp add: j_def n_def)
  also have "\<dots> = Ok (s\<lparr>slides := shown n j, currentSlide := j\<rparr>)"
    using j by (simp add: showSlide_in_range n_def)
  finally show ?thesis by (simp add: j_def n_def)
qed

text \<open>Claim C16. "Previous" refines the abstract slider: the new index
  is the old one minus one modulo the number of slides, so slide 0 goes to the last.\<close>

theorem prev_click_refines:
  assumes "slide_in_range s" and "slides s \<noteq> []"
  shows "prev_click s =
    Ok (s\<lparr>slides := shown (length (slides s)) (slide_prev_spec (length (slides s)) (currentSlide s)),
          currentSlide := slide_prev_spec (length (slides s)) (currentSlide s)\<rparr>)"
proof -
  define n where "n = length (slides s)"
  define j where "j = slide_prev_spec n (currentSlide s)"
  from assms have "0 < n" by (simp add: n_def)
  then have j: "0 \<le> j" "j < int n"
    using slide_specs_in_range(2) by (auto simp: j_def)
  have "prev_click s = showSlide j s"
    using prev_click_wraps [OF assms] by (simp add: j_def n_def)
  also have "\<dots> = Ok (s\<lparr>slides := shown n j, currentSlide := j\<rparr>)"
    using j by (simp add: showSlide_in_range n_def)
  finally show ?thesis by (simp add: j_def n_def)
qed

text \<open>Claim C19. With no \<open>.hero-slide\<close> in the page, every slider
  handler throws a \<open>TypeError\<close> (\<open>heroSlides[0]\<close> and \<open>heroSlides[-1]\<close> are
  \<open>undefined\<close>) and leaves the state as it was.\<close>

theorem no_slides_throw:
  assumes "slides s = []"
  shows "next_click s = Threw TypeError s \<and> prev_click s = Threw TypeError s \<and>
    auto_advance s = Threw TypeError s"
  using assms by (simp add: prev_click_def next_click_def auto_advance_def showSlide_def Let_def)

subsection \<open>Witnesses\<close>

theorem next_click_refines_witness:
  "slide_in_range \<lparr>currentSlide = 2, slides = [False, False, True]\<rparr> \<and>
   slides \<lparr>currentSlide = 2, slides = [False, False, True]\<rparr> \<noteq> [] \<and>
   next_click \<lparr>currentSlide = 2, slides = [False, False, True]\<rparr> =
     Ok \<lparr>currentSlide = 0, slides = [True, False, False]\<rparr>"
  using next_click_refines [of "\<lparr>currentSlide = 2, slides = [False, False, True]\<rparr>"]
  by (simp add: slide_in_range_def slide_next_spec_def shown_def)

theorem prev_click_refines_witness:
  "slide_in_range \<lparr>currentSlide = 0, slides = [True, False, False]\<rparr> \<and>
   slides \<lparr>currentSlide = 0, slides = [True, False, False]\<rparr> \<noteq> [] \<and>
   prev_click \<lparr>currentSlide = 0, slides = [True, False, False]\<rparr> =
     Ok \<lparr>currentSlide = 2, slides = [False, False, True]\<rparr>"
  using prev_click_refines [of "\<lparr>currentSlide = 0, slides = [True, False, False]\<rparr>"]
  by (simp add: slide_in_range_def slide_prev_spec_def shown_def)

theorem no_slides_throw_witness:
  "slides \<lparr>currentSlide = 0, slides = []\<rparr> = [] \<and>
   next_click \<lparr>currentSlide = 0, slides = []\<rparr> = Threw TypeError \<lparr>currentSlide = 0, slides = []\<rparr>"
  using no_slides_throw [of "\<lparr>currentSlide = 0, slides = []\<rparr>"] by simp

end
