(* ===== verification/Theme.thy ===== *)
theory Theme
  imports Prelude
begin

text \<open>
  Theme Control (\<open>src/script.js\<close>, lines 27--43). The state is the \<open>dark-theme\<close>
  class of \<open>document.body\<close>, the \<open>innerHTML\<close> of \<open>#theme-toggle\<close> (the icon) and
  \<open>localStorage\<close>. The click handler toggles the class and then writes the icon and
  the stored preference from the class it finds; the start-up code (lines 39--43)
  applies a stored \<open>'dark'\<close> and otherwise leaves the page's own markup in place.
\<close>

record theme =
  dark_theme :: bool
  theme_icon :: string
  local_storage :: storage

definition sun_html :: string where
  \<open>sun_html = ''<i class="fas fa-sun"></i>''\<close>

definition moon_html :: string where
  \<open>moon_html = ''<i class="fas fa-moon"></i>''\<close>

definition theme_toggle :: "theme \<Rightarrow> theme" where
  "theme_toggle t =
     (let t1 = t\<lparr>dark_theme := \<not> dark_theme t\<rparr>
      in if dark_theme t1
         then t1\<lparr>theme_icon := sun_html, local_storage := (local_storage t1)(''theme'' \<mapsto> ''dark'')\<rparr>
         else t1\<lparr>theme_icon := moon_html, local_storage := (local_storage t1)(''theme'' \<mapsto> ''light'')\<rparr>)"

definition load_saved_theme :: "theme \<Rightarrow> theme" where
  "load_saved_theme t =
     (if local_storage t ''theme'' = Some ''dark''
      then t\<lparr>dark_theme := True, theme_icon := sun_html\<rparr>
      else t)"

text \<open>The class, the icon and the stored preference agree.\<close>

definition theme_consistent :: "theme \<Rightarrow> bool" where
  "theme_consistent t \<longleftrightarrow>
     local_storage t ''theme'' = Some (if dark_theme t then ''dark'' else ''light'') \<and>
     theme_icon t = (if dark_theme t then sun_html else moon_html)"

subsection \<open>Lemmas\<close>

lemma theme_toggle_dark [simp]: "dark_theme (theme_toggle t) = (\<not> dark_theme t)"
  by (simp add: theme_toggle_def Let_def)

lemma theme_toggle_store:
  "local_storage (theme_toggle t) = (local_storage t)(''theme'' \<mapsto> (if dark_theme t then ''light'' else ''dark''))"
  by (simp add: theme_toggle_def Let_def)

lemma theme_toggle_icon:
  "theme_icon (theme_toggle t) = (if dark_theme t then moon_html else sun_html)"
  by (simp add: theme_toggle_def Let_def)

lemma theme_eqI:
  "dark_theme t' = dark_theme t \<Longrightarrow> theme_icon t' = theme_icon t \<Longrightarrow>
   local_storage t' = local_storage t \<Longrightarrow> theme.more t' = theme.more t \<Longrightarrow> t' = t"
  by (cases t, cases t') simp

lemma theme_toggle_more [simp]: "theme.more (theme_toggle t) = theme.more t"
  by (simp add: theme_toggle_def Let_def)

subsection \<open>Properties\<close>

text \<open>Claim C20. After a click on the theme button the body
  class, the button icon and the preference persisted under \<open>'theme'\<close> agree, whatever
  the state before.\<close>

theorem theme_toggle_consistent: "theme_consistent (theme_toggle t)"
  by (simp add: theme_consistent_def theme_toggle_store theme_toggle_icon)

text \<open>Claim C21. From a consistent state, toggling twice restores the
  class, the icon and the persisted preference.\<close>

theorem theme_toggle_twice:
  assumes "theme_consistent t"
  shows "theme_toggle (theme_toggle t) = t"
proof (rule theme_eqI)
  show "dark_theme (theme_toggle (theme_toggle t)) = dark_theme t" by simp
  show "theme_icon (theme_toggle (theme_toggle t)) = theme_icon t"
    using assms by (simp add: theme_toggle_icon theme_consistent_def)
  show "local_storage (theme_toggle (theme_toggle t)) = local_storage t"
    using assms by (auto simp: theme_toggle_store theme_consistent_def fun_upd_idem)
  show "theme.more (theme_toggle (theme_toggle t)) = theme.more t" by simp
qed

text \<open>Claim C22. Without a stored preference (a first visit),
  two toggles do not restore the stored state: the key \<open>'theme'\<close> now holds the
  value of the class the page started with (\<open>'light'\<close> for the default page). Spec section 8 says two toggles return the persisted preference to its
  original value; that holds only once a value is stored.\<close>

theorem theme_toggle_twice_absent:
  assumes "local_storage t ''theme'' = None"
  shows "local_storage (theme_toggle (theme_toggle t)) ''theme'' =
      Some (if dark_theme t then ''dark'' else ''light'') \<and>
    local_storage (theme_toggle (theme_toggle t)) ''theme'' \<noteq> local_storage t ''theme''"
  using assms by (simp add: theme_toggle_store)

subsection \<open>Witnesses\<close>

theorem theme_toggle_twice_witness:
  "theme_consistent \<lparr>dark_theme = False, theme_icon = moon_html, local_storage = [''theme'' \<mapsto> ''light'']\<rparr> \<and>
   theme_toggle (theme_toggle \<lparr>dark_theme = False, theme_icon = moon_html,
     local_storage = [''theme'' \<mapsto> ''light'']\<rparr>) =
   \<lparr>dark_theme = False, theme_icon = moon_html, local_storage = [''theme'' \<mapsto> ''light'']\<rparr>"
  using theme_toggle_twice [of "\<lparr>dark_theme = False, theme_icon = moon_html, local_storage = [''theme'' \<mapsto> ''light'']\<rparr>"]
  by (simp add: theme_consistent_def)

theorem theme_toggle_twice_absent_witness:
  "local_storage \<lparr>dark_theme = False, theme_icon = moon_html, local_storage = Map.empty\<rparr> ''theme'' = None \<and>
   local_storage (theme_toggle (theme_toggle \<lparr>dark_theme = False, theme_icon = moon_html,
     local_storage = Map.empty\<rparr>)) ''theme'' = Some ''light''"
  using theme_toggle_twice_absent [of "\<lparr>dark_theme = False, theme_icon = moon_html, local_storage = Map.empty\<rparr>"]
  by simp

end
