(* ===== verification/Navigation.thy ===== *)
theory Navigation
  imports Prelude
begin

text \<open>
  Navigation: the mobile menu (\<open>src/script.js\<close>, lines 46--61) and page switching
  (lines 64--93). The record holds the global \<open>currentPage\<close> (line 21), the
  \<open>.page\<close> containers as (id, \<open>active\<close>) pairs in document order, the overlay's
  \<open>active\<close> class, \<open>document.body.style.overflow\<close> and the window's scroll
  position.

  \<open>navigateToPage\<close> calls \<open>fetchNews\<close> of the feed when the target is
  \<open>home\<close>. So that this theory does not depend on the feed, the call is a parameter:
  \<open>navigateToPage fetch page (n, f)\<close> works on the navigation state \<open>n\<close> and on the
  rest of the program's state \<open>f\<close>, on which it runs \<open>fetch\<close>. The application
  theory passes the feed's \<open>fetchNews_start\<close>.
\<close>

datatype overflow = OverflowUnset | OverflowHidden | OverflowAuto

record nav =
  currentPage :: string
  pages :: "(dom_id \<times> bool) list"
  overlay_active :: bool
  body_overflow :: overflow
  scroll_pos :: "int \<times> int"

subsection \<open>Mobile menu\<close>

text \<open>Lines 46--49.\<close>

definition menu_open :: "nav \<Rightarrow> nav" where
  "menu_open n = n\<lparr>overlay_active := True, body_overflow := OverflowHidden\<rparr>"

text \<open>Lines 51--54.\<close>

definition menu_close :: "nav \<Rightarrow> nav" where
  "menu_close n = n\<lparr>overlay_active := False, body_overflow := OverflowAuto\<rparr>"

text \<open>Lines 56--61: a click inside the overlay closes it only when its target is the
  overlay itself, not one of its children.\<close>

definition overlay_click :: "bool \<Rightarrow> nav \<Rightarrow> nav" where
  "overlay_click target_is_overlay n =
     (if target_is_overlay then n\<lparr>overlay_active := False, body_overflow := OverflowAuto\<rparr> else n)"

subsection \<open>Page switching\<close>

text \<open>Lines 78--93. \<open>document.getElementById(page + '-page')\<close> is \<open>null\<close> when no
  container has that id, and \<open>null.classList\<close> throws after every page has already lost
  \<open>active\<close>.\<close>

definition navigateToPage :: "('f \<Rightarrow> 'f) \<Rightarrow> string \<Rightarrow> nav \<times> 'f \<Rightarrow> (nav \<times> 'f) outcome" where
  "navigateToPage fetch page nf =
     (let (n, f) = nf;
          n1 = n\<lparr>pages := clear_active (pages n)\<rparr>
      in case activate_first (page @ ''-page'') (pages n1) of
           None \<Rightarrow> Threw TypeError (n1, f)
         | Some ps \<Rightarrow>
             Ok (n1\<lparr>pages := ps, currentPage := page, scroll_pos := (0, 0)\<rparr>,
                 if page = ''home'' then fetch f else f))"

text \<open>Lines 65--75: the click handler of a navigation link with \<open>data-page\<close>
  \<open>page\<close>. If \<open>navigateToPage\<close> throws, the rest of the handler (closing the mobile
  menu) does not run.\<close>

definition nav_link_click :: "('f \<Rightarrow> 'f) \<Rightarrow> string \<Rightarrow> nav \<times> 'f \<Rightarrow> (nav \<times> 'f) outcome" where
  "nav_link_click fetch page nf =
     and_then (navigateToPage fetch page nf)
       (\<lambda>(n, f). Ok (if overlay_active n
                     then (n\<lparr>overlay_active := False, body_overflow := OverflowAuto\<rparr>, f)
                     else (n, f)))"

text \<open>Scrolling of the page is locked (\<open>overflow: hidden\<close>) exactly while the mobile
  menu's overlay is open.\<close>

definition menu_scroll_lock :: "nav \<Rightarrow> bool" where
  "menu_scroll_lock n \<longleftrightarrow> (overlay_active n \<longleftrightarrow> body_overflow n = OverflowHidden)"

subsection \<open>Lemmas\<close>

lemma navigateToPage_found:
  "activate_first (page @ ''-page'') (clear_active (pages n)) = Some ps \<Longrightarrow>
   navigateToPage fetch page (n, f) =
     Ok (n\<lparr>pages := ps, currentPage := page, scroll_pos := (0, 0)\<rparr>,
         if page = ''home'' then fetch f else f)"
  by (simp add: navigateToPage_def)

lemma navigateToPage_missing:
  "page @ ''-page'' \<notin> fst ` set (pages n) \<Longrightarrow>
   navigateToPage fetch page (n, f) = Threw TypeError (n\<lparr>pages := clear_active (pages n)\<rparr>, f)"
proof -
  assume "page @ ''-page'' \<notin> fst ` set (pages n)"
  then have "activate_first (page @ ''-page'') (clear_active (pages n)) = None" by simp
  then show ?thesis by (simp add: navigateToPage_def Let_def del: activate_first_None_iff)
qed

lemma nav_link_click_other:
  "snd (final_state (nav_link_click fetch page (n, f))) = f \<or>
   snd (final_state (nav_link_click fetch page (n, f))) = fetch f"
  by (auto simp: nav_link_click_def navigateToPage_def Let_def split: option.splits)

lemma menu_handlers_scroll_lock:
  "menu_scroll_lock (menu_open n)" "menu_scroll_lock (menu_close n)"
  "menu_scroll_lock n \<Longrightarrow> menu_scroll_lock (overlay_click b n)"
  by (simp_all add: menu_scroll_lock_def menu_open_def menu_close_def overlay_click_def)

lemma nav_link_click_scroll_lock:
  "menu_scroll_lock n \<Longrightarrow> menu_scroll_lock (fst (final_state (nav_link_click fetch page (n, f))))"
  by (auto simp: menu_scroll_lock_def nav_link_click_def navigateToPage_def Let_def split: option.splits)

subsection \<open>Properties\<close>

text \<open>Claim C6. Navigating to a page whose container exists
  leaves exactly one container active, the one with id \<open>page-page\<close>; it records the
  page, scrolls to the origin, and runs the feed reload exactly when the page is
  \<open>home\<close>.\<close>

theorem navigateToPage_shows_one:
  assumes "page @ ''-page'' \<in> fst ` set (pages n)"
  shows "\<exists>n'. navigateToPage fetch page (n, f) = Ok (n', if page = ''home'' then fetch f else f) \<and>
    active_ids (pages n') = [page @ ''-page''] \<and> currentPage n' = page \<and> scroll_pos n' = (0, 0) \<and>
    overlay_active n' = overlay_active n"
proof -
  from assms obtain ps where ps: "activate_first (page @ ''-page'') (clear_active (pages n)) = Some ps"
    using activate_first_clear_Some by blast
  then have "active_ids ps = [page @ ''-page'']"
    by (rule active_ids_activate_first_clear)
  with ps show ?thesis by (simp add: navigateToPage_found)
qed

text \<open>Claim C7. Navigating to a page without a container
  throws a \<open>TypeError\<close> after deactivating every page: no view is visible, the
  current page is not updated and the feed is not reloaded. Spec section 4.2 leaves this
  case undefined; section 3 requires exactly one visible view.\<close>

theorem navigateToPage_missing_page:
  assumes "page @ ''-page'' \<notin> fst ` set (pages n)"
  shows "threw (navigateToPage fetch page (n, f)) \<and>
    active_ids (pages (fst (final_state (navigateToPage fetch page (n, f))))) = [] \<and>
    currentPage (fst (final_state (navigateToPage fetch page (n, f)))) = currentPage n \<and>
    snd (final_state (navigateToPage fetch page (n, f))) = f"
  using assms by (simp add: navigateToPage_missing)

text \<open>Claim C24. A navigation link click that reaches an
  existing page closes an open mobile menu and restores scrolling; one that targets a
  missing page leaves the menu open and the body's overflow as it was.\<close>

theorem nav_link_click_closes_menu:
  "(page @ ''-page'' \<in> fst ` set (pages n) \<longrightarrow>
      \<not> overlay_active (fst (final_state (nav_link_click fetch page (n, f)))) \<and>
      (overlay_active n \<longrightarrow> body_overflow (fst (final_state (nav_link_click fetch page (n, f)))) = OverflowAuto)) \<and>
   (page @ ''-page'' \<notin> fst ` set (pages n) \<longrightarrow>
      overlay_active (fst (final_state (nav_link_click fetch page (n, f)))) = overlay_active n \<and>
      body_overflow (fst (final_state (nav_link_click fetch page (n, f)))) = body_overflow n)"
proof (intro conjI impI)
  assume "page @ ''-page'' \<in> fst ` set (pages n)"
  then obtain ps where "activate_first (page @ ''-page'') (clear_active (pages n)) = Some ps"
    using activate_first_clear_Some by blast
  then have nav: "navigateToPage fetch page (n, f) =
      Ok (n\<lparr>pages := ps, currentPage := page, scroll_pos := (0, 0)\<rparr>,
          if page = ''home'' then fetch f else f)"
    by (rule navigateToPage_found)
  then show "\<not> overlay_active (fst (final_state (nav_link_click fetch page (n, f))))"
    by (simp add: nav_link_click_def)
  assume "overlay_active n"
  with nav show "body_overflow (fst (final_state (nav_link_click fetch page (n, f)))) = OverflowAuto"
    by (simp add: nav_link_click_def)
next
  assume "page @ ''-page'' \<notin> fst ` set (pages n)"
  then have nav: "navigateToPage fetch page (n, f) = Threw TypeError (n\<lparr>pages := clear_active (pages n)\<rparr>, f)"
    by (rule navigateToPage_missing)
  then show "overlay_active (fst (final_state (nav_link_click fetch page (n, f)))) = overlay_active n"
    by (simp add: nav_link_click_def)
  from nav show "body_overflow (fst (final_state (nav_link_click fetch page (n, f)))) = body_overflow n"
    by (simp add: nav_link_click_def)
qed

subsection \<open>Witnesses\<close>

theorem navigateToPage_shows_one_witness:
  "''about-page'' \<in> fst ` set [(''home-page'', True), (''about-page'', False)] \<and>
   (\<exists>n'. navigateToPage Suc ''about''
       (\<lparr>currentPage = ''home'', pages = [(''home-page'', True), (''about-page'', False)],
         overlay_active = False, body_overflow = OverflowUnset, scroll_pos = (0, 7)\<rparr>, 0 :: nat) =
       Ok (n', 0) \<and> active_ids (pages n') = [''about-page''] \<and> currentPage n' = ''about'' \<and>
       scroll_pos n' = (0, 0))"
  using navigateToPage_shows_one [of "''about''"
      "\<lparr>currentPage = ''home'', pages = [(''home-page'', True), (''about-page'', False)],
         overlay_active = False, body_overflow = OverflowUnset, scroll_pos = (0, 7)\<rparr>" Suc "0 :: nat"]
  by auto

theorem navigateToPage_missing_page_witness:
  "''blog-page'' \<notin> fst ` set [(''home-page'', True), (''about-page'', False)] \<and>
   threw (navigateToPage Suc ''blog''
       (\<lparr>currentPage = ''home'', pages = [(''home-page'', True), (''about-page'', False)],
         overlay_active = False, body_overflow = OverflowUnset, scroll_pos = (0, 0)\<rparr>, 0 :: nat)) \<and>
   active_ids (pages (fst (final_state (navigateToPage Suc ''blog''
       (\<lparr>currentPage = ''home'', pages = [(''home-page'', True), (''about-page'', False)],
         overlay_active = False, body_overflow = OverflowUnset, scroll_pos = (0, 0)\<rparr>, 0 :: nat))))) = []"
  using navigateToPage_missing_page [of "''blog''"
      "\<lparr>currentPage = ''home'', pages = [(''home-page'', True), (''about-page'', False)],
         overlay_active = False, body_overflow = OverflowUnset, scroll_pos = (0, 0)\<rparr>" Suc "0 :: nat"]
  by auto

theorem nav_link_click_closes_menu_witness:
  "''about-page'' \<in> fst ` set [(''home-page'', True), (''about-page'', False)] \<and>
   \<not> overlay_active (fst (final_state (nav_link_click Suc ''about''
       (\<lparr>currentPage = ''home'', pages = [(''home-page'', True), (''about-page'', False)],
         overlay_active = True, body_overflow = OverflowHidden, scroll_pos = (0, 0)\<rparr>, 0 :: nat)))) \<and>
   body_overflow (fst (final_state (nav_link_click Suc ''about''
       (\<lparr>currentPage = ''home'', pages = [(''home-page'', True), (''about-page'', False)],
         overlay_active = True, body_overflow = OverflowHidden, scroll_pos = (0, 0)\<rparr>, 0 :: nat)))) = OverflowAuto"
  using nav_link_click_closes_menu [of "''about''"
      "\<lparr>currentPage = ''home'', pages = [(''home-page'', True), (''about-page'', False)],
         overlay_active = True, body_overflow = OverflowHidden, scroll_pos = (0, 0)\<rparr>" Suc "0 :: nat"]
  by auto

end
