(* ===== verification/Contact.thy ===== *)
theory Contact
  imports Prelude
begin

text \<open>
  The contact form stub (\<open>src/script.js\<close>, lines 149--164): four text fields with the
  default values of the page's markup. Submitting prevents the browser's navigation, reads
  the four values, logs them (\<open>console.log\<close>), shows one \<open>alert\<close> and resets the
  form, which puts every field back to its default value. The handler returns what it
  logs and the alert text with the new form state; the application theory appends them
  to the console and to the alerts shown.
\<close>

record form_fields =
  name_value :: string
  email_value :: string
  subject_value :: string
  message_value :: string

record contact =
  form_values :: form_fields
  form_defaults :: form_fields

definition thank_you_alert :: string where
  "thank_you_alert = ''Thank you for your message! We will get back to you soon.''"

definition contact_submit :: "contact \<Rightarrow> form_fields \<times> string \<times> contact" where
  "contact_submit c =
     (let logged = \<lparr>name_value = name_value (form_values c), email_value = email_value (form_values c),
                    subject_value = subject_value (form_values c), message_value = message_value (form_values c)\<rparr>
      in (logged, thank_you_alert, c\<lparr>form_values := form_defaults c\<rparr>))"

text \<open>Typing into the form.\<close>

definition contact_input :: "form_fields \<Rightarrow> contact \<Rightarrow> contact" where
  "contact_input v c = c\<lparr>form_values := v\<rparr>"

lemma contact_submit_eq: "contact_submit c = (form_values c, thank_you_alert, c\<lparr>form_values := form_defaults c\<rparr>)"
  by (simp add: contact_submit_def)

end
