(* ===== verification/App.thy ===== *)
theory App
  imports Feed Slider Theme Navigation Contact "HOL-Library.While_Combinator"
begin

text \<open>
  The whole script as one event-driven program. The record \<open>app\<close> is everything
  \<open>src/script.js\<close> reads or writes: the state of each component, the data-page
  attributes of the navigation links (lines 6 and 67, fixed by the markup), the console
  and the alerts shown. \<open>script_init\<close> is the top level of the script (lines 20--24,
  39--43 and 305): the globals' initial values, the saved theme, and the first
  \<open>fetchNews\<close>. The page's own markup (the containers, buttons, slides and defaults
  that the script finds with \<open>querySelectorAll\<close> and \<open>getElementById\<close>) is the
  parameter \<open>page_html\<close>. The model assumes of the markup what the script takes for
  granted: the mobile overlay starts closed with the body's overflow unset, the search box
  starts empty, and every element whose id ends in \<open>-page\<close> is one of the
  \<open>.page\<close> containers (\<open>getElementById\<close> in \<open>navigateToPage\<close> is looked up among
  them).

  Each event is one handler registered by the script; \<open>dispatch\<close> runs it to
  completion (the browser runs handlers one at a time, spec section 5). A handler that
  throws keeps the effects before the throw and the browser reports the exception on the
  console (\<open>settle\<close>). \<open>FetchTimerFires\<close> is the one-second timer of a pending
  \<open>fetchNews\<close> firing; a click on a button index that the page does not have, or a
  fetch timer with no load pending, is no event and leaves the state unchanged.
  \<open>drain_loads\<close> lets the pending fetch timers fire one after another with no other
  input.
\<close>

datatype log_entry = FormSubmitted form_fields | Uncaught js_error

record app =
  theme_st :: theme
  nav_st :: nav
  feed_st :: feed
  slider_st :: slider
  contact_st :: contact
  nav_links :: "string list"
  console_log :: "log_entry list"
  alerts :: "string list"

record page_html =
  html_pages :: "(dom_id \<times> bool) list"
  html_category_btns :: "(string \<times> bool) list"
  html_slides :: "bool list"
  html_dark_theme :: bool
  html_theme_icon :: string
  html_nav_links :: "string list"
  html_form_defaults :: form_fields

datatype event =
    ThemeToggleClick
  | MobileMenuClick
  | CloseMenuClick
  | OverlayClick bool
  | NavLinkClick nat
  | CategoryBtnClick nat
  | SearchInputChange string
  | SearchBtnClick
  | SearchKeyPress string
  | PrevSlideClick
  | NextSlideClick
  | SlideTimerTick
  | ContactInput form_fields
  | ContactSubmit
  | RetryClick
  | FetchTimerFires

primrec settle :: "app outcome \<Rightarrow> app" where
  "settle (Ok s) = s"
| "settle (Threw e s) = s\<lparr>console_log := console_log s @ [Uncaught e]\<rparr>"

definition script_init :: "page_html \<Rightarrow> storage \<Rightarrow> app" where
  "script_init h st =
     \<lparr>theme_st = load_saved_theme
         \<lparr>dark_theme = html_dark_theme h, theme_icon = html_theme_icon h, local_storage = st\<rparr>,
      nav_st = \<lparr>currentPage = ''home'', pages = html_pages h, overlay_active = False,
                body_overflow = OverflowUnset, scroll_pos = (0, 0)\<rparr>,
      feed_st = fetchNews_start
         \<lparr>currentCategory = ''general'', articles = [], category_btns = html_category_btns h,
          news_grid = [], loading_display = DisplayUnset, error_display = DisplayUnset,
          search_value = [], pending_loads = 0, console_errors = []\<rparr>,
      slider_st = \<lparr>currentSlide = 0, slides = html_slides h\<rparr>,
      contact_st = \<lparr>form_values = html_form_defaults h, form_defaults = html_form_defaults h\<rparr>,
      nav_links = html_nav_links h, console_log = [], alerts = []\<rparr>"

fun dispatch :: "event \<Rightarrow> app \<Rightarrow> app" where
  "dispatch ThemeToggleClick s = s\<lparr>theme_st := theme_toggle (theme_st s)\<rparr>"
| "dispatch MobileMenuClick s = s\<lparr>nav_st := menu_open (nav_st s)\<rparr>"
| "dispatch CloseMenuClick s = s\<lparr>nav_st := menu_close (nav_st s)\<rparr>"
| "dispatch (OverlayClick b) s = s\<lparr>nav_st := overlay_click b (nav_st s)\<rparr>"
| "dispatch (NavLinkClick i) s =
     (if i < length (nav_links s)
      then settle (map_outcome (\<lambda>(n, f). s\<lparr>nav_st := n, feed_st := f\<rparr>)
             (nav_link_click fetchNews_start (nav_links s ! i) (nav_st s, feed_st s)))
      else s)"
| "dispatch (CategoryBtnClick i) s =
     (if i < length (category_btns (feed_st s)) then s\<lparr>feed_st := category_click i (feed_st s)\<rparr> else s)"
| "dispatch (SearchInputChange v) s = s\<lparr>feed_st := search_input v (feed_st s)\<rparr>"
| "dispatch SearchBtnClick s = s\<lparr>feed_st := search_click (feed_st s)\<rparr>"
| "dispatch (SearchKeyPress k) s = s\<lparr>feed_st := search_keypress k (feed_st s)\<rparr>"
| "dispatch PrevSlideClick s = settle (map_outcome (\<lambda>sl. s\<lparr>slider_st := sl\<rparr>) (prev_click (slider_st s)))"
| "dispatch NextSlideClick s = settle (map_outcome (\<lambda>sl. s\<lparr>slider_st := sl\<rparr>) (next_click (slider_st s)))"
| "dispatch SlideTimerTick s = settle (map_outcome (\<lambda>sl. s\<lparr>slider_st := sl\<rparr>) (auto_advance (slider_st s)))"
| "dispatch (ContactInput v) s = s\<lparr>contact_st := contact_input v (contact_st s)\<rparr>"
| "dispatch ContactSubmit s =
     (let (logged, msg, c) = contact_submit (contact_st s)
      in s\<lparr>contact_st := c, console_log := console_log s @ [FormSubmitted logged],
           alerts := alerts s @ [msg]\<rparr>)"
| "dispatch RetryClick s = s\<lparr>feed_st := retry_click (feed_st s)\<rparr>"
| "dispatch FetchTimerFires s =
     (if 0 < pending_loads (feed_st s) then s\<lparr>feed_st := fetchNews_resume (feed_st s)\<rparr> else s)"

definition run :: "app \<Rightarrow> event list \<Rightarrow> app" where
  "run s es = fold dispatch es s"

inductive reachable :: "page_html \<Rightarrow> storage \<Rightarrow> app \<Rightarrow> bool" for h st where
  start: "reachable h st (script_init h st)"
| step: "reachable h st s \<Longrightarrow> reachable h st (dispatch e s)"

text \<open>A page as the repository's markup lays it out, used to run scenarios: three
  views, the five category buttons of spec section 8 with \<open>general\<close> active, three
  hero slides with the first active, and the moon icon on a light page.\<close>

definition demo_page :: page_html where
  "demo_page =
     \<lparr>html_pages = [(''home-page'', True), (''about-page'', False), (''contact-page'', False)],
      html_category_btns = [(''general'', True), (''technology'', False), (''sports'', False),
                            (''health'', False), (''entertainment'', False)],
      html_slides = [True, False, False],
      html_dark_theme = False,
      html_theme_icon = moon_html,
      html_nav_links = [''home'', ''about'', ''contact''],
      html_form_defaults = \<lparr>name_value = [], email_value = [], subject_value = [], message_value = []\<rparr>\<rparr>"

text \<open>The event loop with no user input: while a \<open>fetchNews\<close> is suspended, the oldest
  pending one-second timer (line 178) fires and resumes it. \<open>None\<close> would be a loop
  that never empties the timer queue.\<close>

definition drain_loads :: "app \<Rightarrow> app option" where
  "drain_loads s = while_option (\<lambda>s. 0 < pending_loads (feed_st s)) (dispatch FetchTimerFires) s"

text \<open>The values of the form submissions on the console, oldest first.\<close>

fun form_logs :: "log_entry list \<Rightarrow> form_fields list" where
  "form_logs [] = []"
| "form_logs (FormSubmitted v # es) = v # form_logs es"
| "form_logs (Uncaught e # es) = form_logs es"

subsection \<open>Frame lemmas\<close>

lemma settle_components [simp]:
  "feed_st (settle r) = feed_st (final_state r)" "slider_st (settle r) = slider_st (final_state r)"
  "nav_st (settle r) = nav_st (final_state r)" "theme_st (settle r) = theme_st (final_state r)"
  "contact_st (settle r) = contact_st (final_state r)" "nav_links (settle r) = nav_links (final_state r)"
  "alerts (settle r) = alerts (final_state r)"
  by (cases r; simp)+

lemma run_Nil [simp]: "run s [] = s"
  by (simp add: run_def)

lemma run_Cons [simp]: "run s (e # es) = run (dispatch e s) es"
  by (simp add: run_def)

text \<open>Every event changes the feed by one step of \<open>feed_step\<close>.\<close>

lemma dispatch_feed_step: "feed_step (feed_st s) (feed_st (dispatch e s))"
proof (cases e)
  case (NavLinkClick i)
  have "snd (final_state (nav_link_click fetchNews_start (nav_links s ! i) (nav_st s, feed_st s))) = feed_st s \<or>
        snd (final_state (nav_link_click fetchNews_start (nav_links s ! i) (nav_st s, feed_st s))) =
          fetchNews_start (feed_st s)"
    by (rule nav_link_click_other)
  with NavLinkClick show ?thesis
    by (auto simp: case_prod_beta intro: feed_step.intros)
qed (auto simp: retry_click_def case_prod_beta intro: feed_step.intros)

lemma dispatch_slide_in_range:
  "slide_in_range (slider_st s) \<Longrightarrow> slide_in_range (slider_st (dispatch e s))"
  by (cases e)
     (simp_all add: case_prod_beta prev_click_def next_click_def auto_advance_def Let_def
       showSlide_keeps_in_range)

lemma dispatch_nav_links [simp]: "nav_links (dispatch e s) = nav_links s"
  by (cases e) (simp_all add: case_prod_beta)

lemma script_init_feed:
  "feed_st (script_init h st) =
     \<lparr>currentCategory = ''general'', articles = [], category_btns = html_category_btns h,
      news_grid = [], loading_display = DisplayFlex, error_display = DisplayNone,
      search_value = [], pending_loads = 1, console_errors = []\<rparr>"
  by (simp add: script_init_def fetchNews_start_def)

lemma reachable_feed_inv:
  assumes "reachable h st s"
  shows "error_display (feed_st s) \<noteq> DisplayBlock \<and> loaded_current (feed_st s)"
  using assms
proof (induction rule: reachable.induct)
  case start
  show ?case by (simp add: script_init_feed loaded_current_def)
next
  case (step s e)
  have "feed_step (feed_st s) (feed_st (dispatch e s))" by (rule dispatch_feed_step)
  with step.IH show ?case
    by (metis display.distinct(11) feed_step_error_display feed_step_loaded_current)
qed

lemma reachable_slider_inv: "reachable h st s \<Longrightarrow> slide_in_range (slider_st s)"
proof (induction rule: reachable.induct)
  case start
  show ?case by (simp add: script_init_def slide_in_range_def)
next
  case (step s e)
  from step.IH show ?case by (rule dispatch_slide_in_range)
qed

lemma run_feed_sync: "category_sync (feed_st s) \<Longrightarrow> category_sync (feed_st (run s es))"
proof (induction es arbitrary: s)
  case Nil
  then show ?case by simp
next
  case (Cons e es)
  have "feed_step (feed_st s) (feed_st (dispatch e s))" by (rule dispatch_feed_step)
  then have "category_sync (feed_st (dispatch e s))" using Cons.prems by (rule feed_step_category_sync)
  then show ?case by (simp add: Cons.IH)
qed

lemma reachable_run: "reachable h st s \<Longrightarrow> reachable h st (run s es)"
  by (induction es arbitrary: s) (simp_all add: reachable.step)

text \<open>Every event keeps exactly the slide at \<open>currentSlide\<close> active once that holds.\<close>

lemma dispatch_one_slide_active:
  assumes "slide_in_range (slider_st s)" and "one_slide_active (slider_st s)"
  shows "one_slide_active (slider_st (dispatch e s))"
proof (cases "slides (slider_st s) = []")
  case True
  with assms(2) show ?thesis
    using slider_handlers_empty [OF True] by (cases e) (simp_all add: case_prod_beta contact_submit_eq)
next
  case False
  with assms(2) show ?thesis
    using slider_handlers_one_active [OF assms(1) False] by (cases e) (simp_all add: case_prod_beta contact_submit_eq)
qed

text \<open>Firing the pending timers one after another.\<close>

lemma run_timers_Suc:
  "run s (replicate (Suc m) FetchTimerFires) = dispatch FetchTimerFires (run s (replicate m FetchTimerFires))"
  by (simp only: run_def fold_replicate funpow.simps(2) o_apply)

lemma dispatch_timer_frame [simp]: "(dispatch FetchTimerFires s)\<lparr>feed_st := f\<rparr> = s\<lparr>feed_st := f\<rparr>"
  by simp

lemma run_timers_pending:
  "pending_loads (feed_st (run s (replicate m FetchTimerFires))) = pending_loads (feed_st s) - m"
  by (induction m arbitrary: s) (simp_all add: fetchNews_resume_eq)

lemma run_timers_frame:
  "(run s (replicate m FetchTimerFires))\<lparr>feed_st := feed_st s\<rparr> = s \<and>
   currentCategory (feed_st (run s (replicate m FetchTimerFires))) = currentCategory (feed_st s)"
proof (induction m arbitrary: s)
  case 0
  then show ?case by simp
next
  case (Suc m)
  let ?s1 = "dispatch FetchTimerFires s"
  from Suc.IH [of ?s1]
  have "((run ?s1 (replicate m FetchTimerFires))\<lparr>feed_st := feed_st ?s1\<rparr>)\<lparr>feed_st := feed_st s\<rparr> =
          ?s1\<lparr>feed_st := feed_st s\<rparr>"
    and "currentCategory (feed_st (run ?s1 (replicate m FetchTimerFires))) = currentCategory (feed_st ?s1)"
    by simp_all
  then show ?case by (simp add: fetchNews_resume_eq)
qed

lemma drain_loads_timers:
  "drain_loads s = Some (run s (replicate (pending_loads (feed_st s)) FetchTimerFires))"
proof (induction "pending_loads (feed_st s)" arbitrary: s)
  case 0
  then show ?case unfolding drain_loads_def by (subst while_option_unfold) simp
next
  case (Suc m)
  have "pending_loads (feed_st (dispatch FetchTimerFires s)) = m"
    using Suc.hyps(2) [symmetric] by (simp add: fetchNews_resume_eq)
  then have "drain_loads (dispatch FetchTimerFires s) = Some (run (dispatch FetchTimerFires s) (replicate m FetchTimerFires))"
    using Suc.hyps(1) by simp
  moreover have "drain_loads s = drain_loads (dispatch FetchTimerFires s)"
    using Suc.hyps(2) [symmetric] unfolding drain_loads_def by (subst while_option_unfold) simp
  ultimately show ?case using Suc.hyps(2) [symmetric] by simp
qed

text \<open>Submitting the contact form logs and alerts once and resets the fields; no other
  event shows an alert or logs a form.\<close>

lemma form_logs_append [simp]: "form_logs (xs @ ys) = form_logs xs @ form_logs ys"
  by (induction xs rule: form_logs.induct) simp_all

lemma dispatch_alerts:
  "alerts (dispatch e s) = alerts s @ (if e = ContactSubmit then [thank_you_alert] else [])"
  by (cases e) (simp_all add: case_prod_beta contact_submit_eq)

lemma dispatch_form_logs:
  "form_logs (console_log (dispatch e s)) =
     form_logs (console_log s) @ (if e = ContactSubmit then [form_values (contact_st s)] else [])"
proof (cases e)
  case (NavLinkClick i)
  then show ?thesis
    by (cases "nav_link_click fetchNews_start (nav_links s ! i) (nav_st s, feed_st s)") (simp_all add: case_prod_beta)
next
  case PrevSlideClick
  then show ?thesis by (cases "prev_click (slider_st s)") simp_all
next
  case NextSlideClick
  then show ?thesis by (cases "next_click (slider_st s)") simp_all
next
  case SlideTimerTick
  then show ?thesis by (cases "auto_advance (slider_st s)") simp_all
qed (simp_all add: contact_submit_eq)

lemma dispatch_scroll_lock:
  "menu_scroll_lock (nav_st s) \<Longrightarrow> menu_scroll_lock (nav_st (dispatch e s))"
  by (cases e) (simp_all add: case_prod_beta menu_handlers_scroll_lock nav_link_click_scroll_lock contact_submit_eq)

text \<open>The demo page at start-up.\<close>

lemma demo_feed:
  "feed_st (script_init demo_page Map.empty) =
     \<lparr>currentCategory = ''general'', articles = [],
      category_btns = [(''general'', True), (''technology'', False), (''sports'', False),
                       (''health'', False), (''entertainment'', False)],
      news_grid = [], loading_display = DisplayFlex, error_display = DisplayNone,
      search_value = [], pending_loads = 1, console_errors = []\<rparr>"
  by (simp add: script_init_feed demo_page_def)

lemma demo_reachable_loaded:
  "reachable demo_page Map.empty (dispatch FetchTimerFires (script_init demo_page Map.empty))"
  by (rule reachable.step [OF reachable.start])

end
