(* ===== verification/Runs.thy ===== *)
theory Runs
  imports App
begin

text \<open>
  Properties of the whole script over its runs: invariants of every state reachable from
  start-up by any interleaving of events, the effect of single events in any state, and
  the behaviour of the fetch timers. The model is theory \<open>App\<close>; the witnesses at the
  end run the claims on the demo page.
\<close>

subsection \<open>Properties\<close>

text \<open>Claim C3. The error panel is never shown: the body of
  the \<open>try\<close> in \<open>fetchNews\<close> cannot throw, so its \<open>catch\<close> is dead code and in
  every state the program reaches \<open>#news-error\<close> is not displayed. The "load failed"
  path of spec sections 4.3 and 7 does not occur in this code.\<close>

theorem reachable_error_panel_hidden:
  assumes "reachable h st s"
  shows "error_display (feed_st s) \<noteq> DisplayBlock \<and> (\<forall>f. \<not> isl (fetchNews_try f))"
  using reachable_feed_inv [OF assms] by (simp add: fetchNews_try_Inr)

text \<open>Claim C1. In every reachable state with no load in
  flight, the loaded articles are exactly those of the current category: the rendered
  feed never belongs to an earlier category selection.\<close>

theorem reachable_loaded_current:
  assumes "reachable h st s" and "pending_loads (feed_st s) = 0"
  shows "articles (feed_st s) = load_articles (currentCategory (feed_st s))"
  using reachable_feed_inv [OF assms(1)] assms(2) by (simp add: loaded_current_def)

text \<open>Claim C18. On a page with hero slides, no slider handler ever throws in a
  state the script reaches: the wrap-around of "previous", "next" and the 5-second timer
  always produces an index of an existing slide, so \<open>heroSlides[index]\<close> is defined
  and the console gets no uncaught error from them.\<close>

theorem reachable_slider_never_throws:
  assumes "reachable h st s" and "slides (slider_st s) \<noteq> []"
  shows "\<not> threw (prev_click (slider_st s)) \<and> \<not> threw (next_click (slider_st s)) \<and>
    \<not> threw (auto_advance (slider_st s)) \<and>
    console_log (dispatch PrevSlideClick s) = console_log s \<and> console_log (dispatch NextSlideClick s) = console_log s \<and>
    console_log (dispatch SlideTimerTick s) = console_log s"
proof -
  have ok: "\<not> threw (prev_click (slider_st s)) \<and> \<not> threw (next_click (slider_st s)) \<and>
      \<not> threw (auto_advance (slider_st s))"
    by (rule slider_handlers_Ok [OF reachable_slider_inv [OF assms(1)] assms(2)])
  then show ?thesis
    by (cases "prev_click (slider_st s)"; cases "next_click (slider_st s)"; cases "auto_advance (slider_st s)") simp_all
qed

text \<open>Claim C5. After a click on an existing category button,
  whatever events follow, exactly one category button is active and it carries the
  current category.\<close>

theorem category_sync_persists:
  assumes "i < length (category_btns (feed_st s))"
  shows "category_sync (feed_st (run (dispatch (CategoryBtnClick i) s) es))"
proof (rule run_feed_sync)
  from assms show "category_sync (feed_st (dispatch (CategoryBtnClick i) s))"
    by (simp add: category_sync_def category_click_def fetchNews_start_def active_ids_set_active_at_clear)
qed

text \<open>Claim C26. Following a navigation link to \<open>home\<close> (when the
  page has its container) starts a reload: the grid is emptied, discarding any search
  result, the loading indicator is shown and one more load is in flight; when it
  completes the grid shows the current category's articles.\<close>

theorem home_link_reloads_feed:
  assumes "i < length (nav_links s)" and "nav_links s ! i = ''home''"
    and "''home-page'' \<in> fst ` set (pages (nav_st s))"
  shows "feed_st (dispatch (NavLinkClick i) s) = fetchNews_start (feed_st s) \<and>
    news_grid (feed_st (dispatch FetchTimerFires (dispatch (NavLinkClick i) s))) =
      displayNews (load_articles (currentCategory (feed_st s)))"
proof -
  obtain ps where "activate_first ''home-page'' (clear_active (pages (nav_st s))) = Some ps"
    using assms(3) activate_first_clear_Some by blast
  then have "navigateToPage fetchNews_start ''home'' (nav_st s, feed_st s) =
      Ok ((nav_st s)\<lparr>pages := ps, currentPage := ''home'', scroll_pos := (0, 0)\<rparr>, fetchNews_start (feed_st s))"
    using navigateToPage_found [where page = "''home''"] by simp
  then have "feed_st (dispatch (NavLinkClick i) s) = fetchNews_start (feed_st s)"
    using assms(1,2) by (simp add: nav_link_click_def)
  moreover have "news_grid (fetchNews_resume (fetchNews_start (feed_st s))) =
      displayNews (load_articles (currentCategory (feed_st s)))"
    by (simp add: fetchNews_resume_eq fetchNews_start_def)
  ultimately show ?thesis by (simp add: fetchNews_start_def)
qed

text \<open>Claim C30. The slide timer is independent of manual navigation (spec section 4.6):
  when the 5-second tick comes right after a click on "next", the slider advances twice,
  to the index plus two modulo the number of slides.\<close>

theorem next_then_timer_double_advance:
  assumes "reachable h st s" and "slides (slider_st s) \<noteq> []"
  shows "currentSlide (slider_st (run s [NextSlideClick, SlideTimerTick])) =
    (currentSlide (slider_st s) + 2) mod int (length (slides (slider_st s)))"
proof -
  let ?n = "length (slides (slider_st s))"
  let ?s1 = "dispatch NextSlideClick s"
  have r: "slide_in_range (slider_st s)" by (rule reachable_slider_inv [OF assms(1)])
  have sl1: "slider_st ?s1 = final_state (next_click (slider_st s))" by simp
  from next_click_state [OF r assms(2)] sl1
  have c1: "currentSlide (slider_st ?s1) = slide_next_spec ?n (currentSlide (slider_st s))"
    and n1: "length (slides (slider_st ?s1)) = ?n"
    by simp_all
  have r1: "slide_in_range (slider_st ?s1)" by (rule dispatch_slide_in_range [OF r])
  from n1 assms(2) have ne1: "slides (slider_st ?s1) \<noteq> []" by auto
  have "slider_st (dispatch SlideTimerTick ?s1) = final_state (next_click (slider_st ?s1))"
    by (simp add: auto_advance_is_next)
  with next_click_state [OF r1 ne1] c1 n1
  have "currentSlide (slider_st (dispatch SlideTimerTick ?s1)) =
      slide_next_spec ?n (slide_next_spec ?n (currentSlide (slider_st s)))"
    by simp
  also have "\<dots> = (currentSlide (slider_st s) + 2) mod int ?n"
    by (simp add: slide_next_spec_def mod_add_left_eq add.assoc)
  finally show ?thesis by simp
qed

text \<open>Claim C31. In every reachable state the news grid is either the single
  no-results placeholder or a list of cards only, and the articles on the cards are loaded
  articles, in their loaded order: neither a search nor a completing load, in any
  interleaving, can show an article that is not in the loaded set.\<close>

theorem reachable_grid_from_loaded:
  assumes "reachable h st s"
  shows "grid_from_loaded (feed_st s)"
  using assms
proof induction
  case start
  show ?case by (simp add: script_init_feed grid_from_loaded_empty)
next
  case (step s e)
  from step.IH show ?case by (rule feed_step_grid_from_loaded [OF dispatch_feed_step])
qed

text \<open>Claim C32. If the page has no hero slides, or its markup marks exactly the first
  slide active (the slide that \<open>currentSlide = 0\<close> stands for), then in every reachable
  state exactly one hero slide is active and it is the slide at \<open>currentSlide\<close>,
  including after a handler threw.\<close>

theorem reachable_one_slide_active:
  assumes "reachable h st s" and "html_slides h = [] \<or> active_indices (html_slides h) = [0]"
  shows "one_slide_active (slider_st s)"
  using assms(1)
proof induction
  case start
  from assms(2) show ?case by (auto simp: script_init_def one_slide_active_def)
next
  case (step s e)
  from reachable_slider_inv [OF step.hyps] step.IH show ?case by (rule dispatch_one_slide_active)
qed

text \<open>Claim C33. Letting the pending fetch timers fire with no other input always ends:
  the loop stops after exactly as many timer events as there are loads in flight.\<close>

theorem drain_loads_terminates:
  "drain_loads s = Some (run s (replicate (pending_loads (feed_st s)) FetchTimerFires))"
  by (rule drain_loads_timers)

text \<open>Claim C34. Every load in flight completes: from any state with a pending
  \<open>fetchNews\<close>, the timers bring the program to a state with no load in flight, the
  loading indicator hidden, the current category's articles loaded and all of them
  rendered; the category and every other part of the state are as before.\<close>

theorem pending_loads_complete:
  assumes "0 < pending_loads (feed_st s)"
  shows "\<exists>s'. drain_loads s = Some s' \<and> pending_loads (feed_st s') = 0 \<and>
    loading_display (feed_st s') = DisplayNone \<and> currentCategory (feed_st s') = currentCategory (feed_st s) \<and>
    articles (feed_st s') = load_articles (currentCategory (feed_st s)) \<and>
    news_grid (feed_st s') = displayNews (load_articles (currentCategory (feed_st s))) \<and>
    s'\<lparr>feed_st := feed_st s\<rparr> = s"
proof -
  obtain m where m: "pending_loads (feed_st s) = Suc m"
    using assms gr0_implies_Suc by blast
  let ?s0 = "run s (replicate m FetchTimerFires)"
  have p0: "pending_loads (feed_st ?s0) = 1" using m by (simp add: run_timers_pending)
  have f0: "?s0\<lparr>feed_st := feed_st s\<rparr> = s" "currentCategory (feed_st ?s0) = currentCategory (feed_st s)"
    by (simp_all add: run_timers_frame)
  have "drain_loads s = Some (dispatch FetchTimerFires ?s0)"
    by (simp only: drain_loads_timers m run_timers_Suc)
  moreover have "(dispatch FetchTimerFires ?s0)\<lparr>feed_st := feed_st s\<rparr> = s"
    using f0(1) by (simp only: dispatch_timer_frame)
  ultimately show ?thesis using p0 f0(2) by (simp add: fetchNews_resume_eq)
qed

text \<open>Claim C35. Following a navigation link whose page has no container: the
  handler throws a \<open>TypeError\<close>, which the browser reports on the console; every view
  has lost \<open>active\<close>, so none is visible, the overlay stays as it was, and the
  current page and the feed are unchanged.\<close>

theorem missing_page_link_uncaught:
  assumes "i < length (nav_links s)" and "nav_links s ! i @ ''-page'' \<notin> fst ` set (pages (nav_st s))"
  shows "console_log (dispatch (NavLinkClick i) s) = console_log s @ [Uncaught TypeError] \<and>
    active_ids (pages (nav_st (dispatch (NavLinkClick i) s))) = [] \<and>
    overlay_active (nav_st (dispatch (NavLinkClick i) s)) = overlay_active (nav_st s) \<and>
    currentPage (nav_st (dispatch (NavLinkClick i) s)) = currentPage (nav_st s) \<and>
    feed_st (dispatch (NavLinkClick i) s) = feed_st s"
proof -
  have "nav_link_click fetchNews_start (nav_links s ! i) (nav_st s, feed_st s) =
      Threw TypeError ((nav_st s)\<lparr>pages := clear_active (pages (nav_st s))\<rparr>, feed_st s)"
    using assms(2) by (simp add: nav_link_click_def navigateToPage_missing)
  with assms(1) show ?thesis by simp
qed

text \<open>Claim C36. The Enter key and the search button are the same search: in any
  sequence of events, replacing search-button clicks by Enter key presses gives the same
  final state, and a key press of any other key changes nothing.\<close>

theorem enter_key_is_search_click:
  "run s (map (\<lambda>e. if e = SearchBtnClick then SearchKeyPress ''Enter'' else e) es) = run s es \<and>
   (k \<noteq> ''Enter'' \<longrightarrow> dispatch (SearchKeyPress k) s = s)"
proof -
  have "dispatch (SearchKeyPress ''Enter'') t = dispatch SearchBtnClick t" for t
    by (simp add: search_keypress_Enter)
  then have "run s (map (\<lambda>e. if e = SearchBtnClick then SearchKeyPress ''Enter'' else e) es) = run s es"
    by (induction es arbitrary: s) simp_all
  moreover have "k \<noteq> ''Enter'' \<longrightarrow> dispatch (SearchKeyPress k) s = s"
    by (simp add: search_keypress_other)
  ultimately show ?thesis by blast
qed

text \<open>Claim C23. A search is not undone by a category change: after typing a query,
  searching, and selecting a category whose load then completes, the grid shows the
  whole category, unfiltered, while the search box still holds the query. Spec section 9
  notes the missing "clear search box" step as an open question.\<close>

theorem search_query_survives_reload:
  assumes "i < length (category_btns (feed_st s))"
  shows "search_value (feed_st (run s [SearchInputChange q, SearchBtnClick, CategoryBtnClick i, FetchTimerFires])) = q \<and>
    news_grid (feed_st (run s [SearchInputChange q, SearchBtnClick, CategoryBtnClick i, FetchTimerFires])) =
      displayNews (load_articles (fst (category_btns (feed_st s) ! i)))"
proof -
  let ?f1 = "search_click (search_input q (feed_st s))"
  have btns: "category_btns ?f1 = category_btns (feed_st s)" and sv: "search_value ?f1 = q"
    by (simp_all add: search_input_def search_handlers_frame) (simp add: search_click_def searchNews_def Let_def)
  have run: "feed_st (run s [SearchInputChange q, SearchBtnClick, CategoryBtnClick i, FetchTimerFires]) =
      fetchNews_resume (category_click i ?f1)"
    using assms btns by (simp add: category_click_def fetchNews_start_def)
  show ?thesis
    by (simp only: run) (simp add: fetchNews_resume_eq category_click_def fetchNews_start_def btns sv)
qed

text \<open>Claim C25. In every reachable state, scrolling is locked exactly while the
  mobile menu's overlay is open: opening locks it, every way of closing the menu (the
  close button, the overlay's background, a navigation link) unlocks it, and a
  navigation that throws leaves both as they were.\<close>

theorem reachable_scroll_lock:
  assumes "reachable h st s"
  shows "overlay_active (nav_st s) \<longleftrightarrow> body_overflow (nav_st s) = OverflowHidden"
proof -
  from assms have "menu_scroll_lock (nav_st s)"
  proof induction
    case start
    show ?case by (simp add: script_init_def menu_scroll_lock_def)
  next
    case (step s e)
    from step.IH show ?case by (rule dispatch_scroll_lock)
  qed
  then show ?thesis by (simp add: menu_scroll_lock_def)
qed

text \<open>Claim C27. Over any sequence of events, the alerts shown are one thank-you
  message per contact form submission, and the console gains one logged form per
  submission, holding the values the form had at that moment, in order.\<close>

theorem run_contact_effects:
  "alerts (run s es) = alerts s @ replicate (count_list es ContactSubmit) thank_you_alert \<and>
   length (form_logs (console_log (run s es))) = length (form_logs (console_log s)) + count_list es ContactSubmit"
proof (induction es arbitrary: s)
  case Nil
  then show ?case by simp
next
  case (Cons e es)
  from Cons.IH [of "dispatch e s"] show ?case
    by (simp add: dispatch_alerts dispatch_form_logs replicate_append_same [symmetric])
qed

text \<open>Claim C29. The loading indicator does not track the loads in flight: whenever
  a load completes while another one is still pending, its \<open>finally\<close> hides the
  indicator although a load remains in flight. Spec section 4.3 describes the indicator
  as shown during loading.\<close>

theorem loading_hidden_while_pending:
  assumes "1 < pending_loads (feed_st s)"
  shows "0 < pending_loads (feed_st (dispatch FetchTimerFires s)) \<and>
    loading_display (feed_st (dispatch FetchTimerFires s)) = DisplayNone"
  using assms by (simp add: fetchNews_resume_eq)

subsection \<open>Witnesses\<close>

theorem next_then_timer_double_advance_witness:
  "reachable demo_page Map.empty (script_init demo_page Map.empty) \<and>
   slides (slider_st (script_init demo_page Map.empty)) \<noteq> [] \<and>
   currentSlide (slider_st (run (script_init demo_page Map.empty) [NextSlideClick, SlideTimerTick])) = 2"
proof -
  have ne: "slides (slider_st (script_init demo_page Map.empty)) = [True, False, False]"
    and c: "currentSlide (slider_st (script_init demo_page Map.empty)) = 0"
    by (simp_all add: script_init_def demo_page_def)
  show ?thesis
    using next_then_timer_double_advance [OF reachable.start, of demo_page Map.empty] ne c reachable.start
    by simp
qed

theorem reachable_error_panel_hidden_witness:
  "reachable demo_page Map.empty (dispatch FetchTimerFires (script_init demo_page Map.empty)) \<and>
   error_display (feed_st (dispatch FetchTimerFires (script_init demo_page Map.empty))) \<noteq> DisplayBlock"
  using reachable_error_panel_hidden [OF demo_reachable_loaded] demo_reachable_loaded by simp

theorem reachable_loaded_current_witness:
  "reachable demo_page Map.empty (dispatch FetchTimerFires (script_init demo_page Map.empty)) \<and>
   pending_loads (feed_st (dispatch FetchTimerFires (script_init demo_page Map.empty))) = 0 \<and>
   articles (feed_st (dispatch FetchTimerFires (script_init demo_page Map.empty))) = load_articles ''general''"
proof -
  have p: "pending_loads (feed_st (dispatch FetchTimerFires (script_init demo_page Map.empty))) = 0"
    and c: "currentCategory (feed_st (dispatch FetchTimerFires (script_init demo_page Map.empty))) = ''general''"
    by (simp_all add: demo_feed fetchNews_resume_eq)
  show ?thesis
    using reachable_loaded_current [OF demo_reachable_loaded p] demo_reachable_loaded p c by simp
qed

theorem reachable_slider_never_throws_witness:
  "reachable demo_page Map.empty (dispatch NextSlideClick (script_init demo_page Map.empty)) \<and>
   slides (slider_st (dispatch NextSlideClick (script_init demo_page Map.empty))) \<noteq> [] \<and>
   \<not> threw (next_click (slider_st (dispatch NextSlideClick (script_init demo_page Map.empty))))"
proof -
  have r: "reachable demo_page Map.empty (dispatch NextSlideClick (script_init demo_page Map.empty))"
    by (rule reachable.step [OF reachable.start])
  have ne: "slides (slider_st (dispatch NextSlideClick (script_init demo_page Map.empty))) = [False, True, False]"
    by (simp add: script_init_def demo_page_def next_click_def showSlide_def)
  from reachable_slider_never_throws [OF r] r ne show ?thesis by simp
qed

theorem category_sync_persists_witness:
  "1 < length (category_btns (feed_st (script_init demo_page Map.empty))) \<and>
   category_sync (feed_st (run (dispatch (CategoryBtnClick 1) (script_init demo_page Map.empty))
     [FetchTimerFires, SearchBtnClick, RetryClick]))"
  using category_sync_persists [of 1 "script_init demo_page Map.empty" "[FetchTimerFires, SearchBtnClick, RetryClick]"]
  by (simp add: demo_feed)

theorem home_link_reloads_feed_witness:
  "0 < length (nav_links (script_init demo_page Map.empty)) \<and>
   nav_links (script_init demo_page Map.empty) ! 0 = ''home'' \<and>
   ''home-page'' \<in> fst ` set (pages (nav_st (script_init demo_page Map.empty))) \<and>
   news_grid (feed_st (dispatch FetchTimerFires (dispatch (NavLinkClick 0) (script_init demo_page Map.empty)))) =
     displayNews (load_articles ''general'')"
proof -
  have h: "0 < length (nav_links (script_init demo_page Map.empty))"
    "nav_links (script_init demo_page Map.empty) ! 0 = ''home''"
    "''home-page'' \<in> fst ` set (pages (nav_st (script_init demo_page Map.empty)))"
    by (simp_all add: script_init_def demo_page_def)
  have c: "currentCategory (feed_st (script_init demo_page Map.empty)) = ''general''"
    by (simp add: demo_feed)
  have "news_grid (feed_st (dispatch FetchTimerFires (dispatch (NavLinkClick 0) (script_init demo_page Map.empty)))) =
      displayNews (load_articles ''general'')"
    using conjunct2 [OF home_link_reloads_feed [OF h]] c by (simp only:)
  with h show ?thesis by blast
qed

theorem overlapping_loads_show_latest_witness:
  "1 < length (category_btns (feed_st (script_init demo_page Map.empty))) \<and>
   2 < length (category_btns (feed_st (script_init demo_page Map.empty))) \<and>
   articles (fetchNews_resume (category_click 2 (category_click 1 (feed_st (script_init demo_page Map.empty))))) =
     load_articles ''sports'' \<and>
   pending_loads (fetchNews_resume (category_click 2 (category_click 1 (feed_st (script_init demo_page Map.empty))))) = 2"
  using overlapping_loads_show_latest [of 1 "feed_st (script_init demo_page Map.empty)" 2]
  by (simp add: demo_feed)

theorem category_click_sync_witness:
  "1 < length (category_btns (feed_st (script_init demo_page Map.empty))) \<and>
   category_sync (category_click 1 (feed_st (script_init demo_page Map.empty))) \<and>
   currentCategory (category_click 1 (feed_st (script_init demo_page Map.empty))) = ''technology''"
  using category_click_sync [of 1 "feed_st (script_init demo_page Map.empty)"]
  by (simp add: demo_feed)

theorem blank_search_noop_witness:
  "trim (search_value ((feed_st (script_init demo_page Map.empty))\<lparr>search_value := ''  ''\<rparr>)) = [] \<and>
   search_click ((feed_st (script_init demo_page Map.empty))\<lparr>search_value := ''  ''\<rparr>) =
     (feed_st (script_init demo_page Map.empty))\<lparr>search_value := ''  ''\<rparr>"
proof -
  have ws: "\<forall>c \<in> set (search_value ((feed_st (script_init demo_page Map.empty))\<lparr>search_value := ''  ''\<rparr>)). js_whitespace c"
    by (simp add: js_whitespace_def)
  have "trim ''  '' = []" by (simp add: trim_def js_whitespace_def)
  then show ?thesis using blank_search_noop [OF ws] by simp
qed

theorem matches_case_insensitive_substring_witness:
  "toLowerCase ''PAKISTAN'' = toLowerCase ''Pakistan'' \<and>
   matches ''PAKISTAN'' (hd mockNews) = matches ''Pakistan'' (hd mockNews)"
proof -
  have l: "toLowerCase ''PAKISTAN'' = toLowerCase ''Pakistan''"
    by code_simp
  show ?thesis
    using matches_case_insensitive_substring [of "''PAKISTAN''" "hd mockNews" "''Pakistan''"] l by blast
qed

theorem reachable_grid_from_loaded_witness:
  "reachable demo_page Map.empty
     (run (script_init demo_page Map.empty) [FetchTimerFires, SearchInputChange ''cricket'', SearchBtnClick]) \<and>
   grid_from_loaded (feed_st
     (run (script_init demo_page Map.empty) [FetchTimerFires, SearchInputChange ''cricket'', SearchBtnClick]))"
proof -
  have r: "reachable demo_page Map.empty
      (run (script_init demo_page Map.empty) [FetchTimerFires, SearchInputChange ''cricket'', SearchBtnClick])"
    by (rule reachable_run [OF reachable.start])
  show ?thesis by (intro conjI r reachable_grid_from_loaded [OF r])
qed

theorem reachable_one_slide_active_witness:
  "reachable demo_page Map.empty (run (script_init demo_page Map.empty) [PrevSlideClick, SlideTimerTick]) \<and>
   active_indices (html_slides demo_page) = [0] \<and>
   one_slide_active (slider_st (run (script_init demo_page Map.empty) [PrevSlideClick, SlideTimerTick]))"
proof -
  have r: "reachable demo_page Map.empty (run (script_init demo_page Map.empty) [PrevSlideClick, SlideTimerTick])"
    by (rule reachable_run [OF reachable.start])
  have a: "active_indices (html_slides demo_page) = [0]"
    by (simp add: demo_page_def active_indices_def)
  show ?thesis by (intro conjI r a reachable_one_slide_active [OF r]) (rule disjI2 [OF a])
qed

theorem pending_loads_complete_witness:
  "0 < pending_loads (feed_st (script_init demo_page Map.empty)) \<and>
   (\<exists>s'. drain_loads (script_init demo_page Map.empty) = Some s' \<and>
     news_grid (feed_st s') = displayNews (load_articles ''general''))"
proof -
  have p: "0 < pending_loads (feed_st (script_init demo_page Map.empty))"
    and c: "currentCategory (feed_st (script_init demo_page Map.empty)) = ''general''"
    by (simp_all add: demo_feed)
  from pending_loads_complete [OF p] c p show ?thesis by auto
qed

theorem missing_page_link_uncaught_witness:
  "1 < length (nav_links (script_init (demo_page\<lparr>html_nav_links := [''home'', ''news'']\<rparr>) Map.empty)) \<and>
   nav_links (script_init (demo_page\<lparr>html_nav_links := [''home'', ''news'']\<rparr>) Map.empty) ! 1 @ ''-page''
     \<notin> fst ` set (pages (nav_st (script_init (demo_page\<lparr>html_nav_links := [''home'', ''news'']\<rparr>) Map.empty))) \<and>
   console_log (dispatch (NavLinkClick 1) (script_init (demo_page\<lparr>html_nav_links := [''home'', ''news'']\<rparr>) Map.empty)) =
     [Uncaught TypeError]"
proof -
  have h: "1 < length (nav_links (script_init (demo_page\<lparr>html_nav_links := [''home'', ''news'']\<rparr>) Map.empty))"
    "nav_links (script_init (demo_page\<lparr>html_nav_links := [''home'', ''news'']\<rparr>) Map.empty) ! 1 @ ''-page''
      \<notin> fst ` set (pages (nav_st (script_init (demo_page\<lparr>html_nav_links := [''home'', ''news'']\<rparr>) Map.empty)))"
    "console_log (script_init (demo_page\<lparr>html_nav_links := [''home'', ''news'']\<rparr>) Map.empty) = []"
    by (simp_all add: script_init_def demo_page_def)
  from missing_page_link_uncaught [OF h(1,2)] h show ?thesis by simp
qed

theorem enter_key_is_search_click_witness:
  "''Escape'' \<noteq> ''Enter'' \<and>
   dispatch (SearchKeyPress ''Escape'') (script_init demo_page Map.empty) = script_init demo_page Map.empty \<and>
   run (script_init demo_page Map.empty) [SearchInputChange ''health'', SearchKeyPress ''Enter''] =
     run (script_init demo_page Map.empty) [SearchInputChange ''health'', SearchBtnClick]"
  using enter_key_is_search_click [of "script_init demo_page Map.empty"
      "[SearchInputChange ''health'', SearchBtnClick]" "''Escape''"]
  by simp

theorem search_query_survives_reload_witness:
  "1 < length (category_btns (feed_st (script_init demo_page Map.empty))) \<and>
   search_value (feed_st (run (script_init demo_page Map.empty)
     [SearchInputChange ''cricket'', SearchBtnClick, CategoryBtnClick 1, FetchTimerFires])) = ''cricket'' \<and>
   news_grid (feed_st (run (script_init demo_page Map.empty)
     [SearchInputChange ''cricket'', SearchBtnClick, CategoryBtnClick 1, FetchTimerFires])) =
     displayNews (load_articles ''technology'')"
proof -
  have h: "1 < length (category_btns (feed_st (script_init demo_page Map.empty)))"
    and b: "fst (category_btns (feed_st (script_init demo_page Map.empty)) ! 1) = ''technology''"
    by (simp_all add: demo_feed)
  from search_query_survives_reload [OF h, of "''cricket''"] h b show ?thesis by (simp only: simp_thms)
qed

theorem reachable_scroll_lock_witness:
  "reachable demo_page Map.empty (run (script_init demo_page Map.empty) [MobileMenuClick, NavLinkClick 1]) \<and>
   (overlay_active (nav_st (run (script_init demo_page Map.empty) [MobileMenuClick, NavLinkClick 1])) \<longleftrightarrow>
    body_overflow (nav_st (run (script_init demo_page Map.empty) [MobileMenuClick, NavLinkClick 1])) = OverflowHidden)"
proof -
  have r: "reachable demo_page Map.empty (run (script_init demo_page Map.empty) [MobileMenuClick, NavLinkClick 1])"
    by (rule reachable_run [OF reachable.start])
  show ?thesis by (intro conjI r reachable_scroll_lock [OF r])
qed

theorem loading_hidden_while_pending_witness:
  "reachable demo_page Map.empty (dispatch (CategoryBtnClick 1) (script_init demo_page Map.empty)) \<and>
   1 < pending_loads (feed_st (dispatch (CategoryBtnClick 1) (script_init demo_page Map.empty))) \<and>
   0 < pending_loads (feed_st (run (script_init demo_page Map.empty) [CategoryBtnClick 1, FetchTimerFires])) \<and>
   loading_display (feed_st (run (script_init demo_page Map.empty) [CategoryBtnClick 1, FetchTimerFires])) = DisplayNone"
proof -
  have r: "reachable demo_page Map.empty (dispatch (CategoryBtnClick 1) (script_init demo_page Map.empty))"
    by (rule reachable.step [OF reachable.start])
  have p: "1 < pending_loads (feed_st (dispatch (CategoryBtnClick 1) (script_init demo_page Map.empty)))"
    by (simp add: demo_feed category_click_def fetchNews_start_def)
  from loading_hidden_while_pending [OF p] r p show ?thesis by simp
qed

theorem search_narrowing_witness:
  "sublist ''cricket'' ''cricket squad'' \<and>
   subseq (cards_of (news_grid (searchNews ''cricket squad'' (feed_st (dispatch FetchTimerFires (script_init demo_page Map.empty))))))
     (cards_of (news_grid (searchNews ''cricket'' (feed_st (dispatch FetchTimerFires (script_init demo_page Map.empty))))))"
proof -
  have q: "sublist ''cricket'' ''cricket squad''"
    using sublist_appendI [of "''cricket''" "[]" "'' squad''"] by simp
  from search_narrowing [OF q] q show ?thesis by blast
qed

theorem search_ignores_surrounding_blanks_witness:
  "list_all js_whitespace ''  '' \<and> list_all js_whitespace '' '' \<and>
   search_click ((feed_st (script_init demo_page Map.empty))\<lparr>search_value := ''  '' @ ''cricket'' @ '' ''\<rparr>) =
     (search_click ((feed_st (script_init demo_page Map.empty))\<lparr>search_value := ''cricket''\<rparr>))
       \<lparr>search_value := ''  '' @ ''cricket'' @ '' ''\<rparr>"
proof -
  have w: "list_all js_whitespace ''  ''" "list_all js_whitespace '' ''"
    by (simp_all add: js_whitespace_def)
  from search_ignores_surrounding_blanks [OF w, where f = "feed_st (script_init demo_page Map.empty)" and q = "''cricket''"] w
  show ?thesis by blast
qed

end
