(* ===== verification/Spec2Isabelle.thy ===== *)
theory Spec2Isabelle
  imports Runs
begin

text \<open>
  \<^bold>\<open>A verification model of the News front-end controller (src/script.js).\<close>

  The repository is one browser script, \<open>src/script.js\<close>, that wires a static news page:
  theme switching persisted in \<open>localStorage\<close>, a mobile navigation overlay, switching
  between page views, a category-filtered news feed served from a mock table after a
  simulated one-second delay, a free-text search over the loaded articles, an
  auto-advancing hero slider and a contact form that only logs. All state is global to the
  script (\<open>currentPage\<close>, \<open>currentCategory\<close>, \<open>currentSlide\<close>, \<open>articles\<close>) or lives
  in the DOM; every behaviour is an event handler that runs to completion.

  \<^bold>\<open>Theories and what they model.\<close>
  \<^item> \<open>Prelude\<close>: the exception model (\<open>outcome\<close>: a handler that throws keeps the
    effects it made before the throw), inline display values, and the class-list helpers:
    \<open>clear_active\<close> (\<open>forEach(p => p.classList.remove('active'))\<close>),
    \<open>activate_first\<close> (\<open>getElementById(id).classList.add('active')\<close>, \<open>None\<close> for a
    \<open>null\<close> element), \<open>set_active_at\<close>, with the lemmas that exactly one id is active
    afterwards.
  \<^item> \<open>Text\<close>: \<open>trim\<close>, \<open>toLowerCase\<close> and \<open>includes\<close> (as \<open>str_includes\<close>) on
    strings of Latin-1 code units (the ECMAScript white space and lower-case mapping of
    U+0000--U+00FF); \<open>str_includes\<close> is proved equal to the library's \<open>sublist\<close>.
  \<^item> \<open>Articles\<close>: the article record, the six-entry \<open>mockNews\<close> table verbatim (lines
    181--236) and \<open>load_articles\<close>, the category filter of lines 238--243, with the Article
    Source contract of spec section 6.
  \<^item> \<open>Render\<close>: \<open>displayNews\<close> (lines 266--299) as a list of grid nodes, the exact
    card and placeholder markup, and \<open>h3_texts\<close>, a reader of the headlines in the
    grid's markup.
  \<^item> \<open>Feed\<close>: \<open>fetchNews\<close> split at its \<open>await\<close> into \<open>fetchNews_start\<close> and
    \<open>fetchNews_resume\<close> (\<open>try\<close>/\<open>catch\<close>/\<open>finally\<close> as \<open>fetchNews_try\<close>,
    \<open>fetchNews_catch\<close>), \<open>searchNews\<close> with its matching rule \<open>matches\<close>, the search
    button and Enter-key handlers, the category buttons and the retry button; the relation
    \<open>feed_step\<close> collects them, and the feed invariants are proved over it.
  \<^item> \<open>Slider\<close>: \<open>showSlide\<close> (throwing on an index outside the node list), the previous,
    next and timer handlers, and the abstract circular slider they refine.
  \<^item> \<open>Theme\<close>: the toggle handler and the start-up theme load.
  \<^item> \<open>Navigation\<close>: the mobile menu handlers, \<open>navigateToPage\<close> and the navigation link
    handler, with the scroll lock (\<open>menu_scroll_lock\<close>) that they keep. \<open>navigateToPage\<close> takes the feed reload as a parameter over any state type,
    the interface through which it calls \<open>fetchNews\<close>.
  \<^item> \<open>Contact\<close>: the contact form submit.
  \<^item> \<open>App\<close>: the whole script: the state record \<open>app\<close>, the start-up code
    \<open>script_init\<close> (lines 20--24, 39--43 and 305) over the page's markup \<open>page_html\<close>, one
    \<open>event\<close> per registered handler, \<open>dispatch\<close>, runs of events, the inductive set
    of \<open>reachable\<close> states, and \<open>drain_loads\<close>, the event loop firing the pending fetch
    timers with no user input (a \<open>while_option\<close>), with the frame lemmas: what
    each event changes and what it leaves alone.
  \<^item> \<open>Runs\<close>: the properties of the whole script over its runs, and witnesses that run
    them on a demo page.

  \<^bold>\<open>Asynchrony.\<close> The only suspension point is the \<open>await\<close> in \<open>fetchNews\<close>. Its
  continuation captures no local value, so loads in flight are counted
  (\<open>pending_loads\<close>) and each firing timer (\<open>FetchTimerFires\<close>) resumes one of them on
  the state of that moment. Interleavings of loads with clicks, searches and other timers
  are exactly the event sequences of \<open>run\<close> and \<open>reachable\<close>. The slider's
  \<open>setInterval\<close> is the event \<open>SlideTimerTick\<close>, which may occur at any point.

  \<^bold>\<open>What is proved.\<close> Invariants of every reachable state: a completed feed always holds
  the current category's articles, the error panel is never shown, and on a page with
  slides no slider handler throws. Category buttons stay in sync after any click. Page switching shows exactly one
  view, and a missing page throws with none shown. The renderer produces one card per
  article in order, or a single placeholder, and for markup-free fields the headlines read
  back from the grid's markup are the titles in order. Search filters the loaded set with
  case-insensitive substring matching, so a longer query only narrows the result; blanks
  around the query are ignored, a blank query does nothing, and a second search starts
  again from the loaded set. The slider refines the modular circular slider.
  Theme toggling is consistent and is its own inverse once a preference is stored. The
  witnesses run these properties on a demo page with the five category buttons of spec
  section 8.
  Over every interleaving of events (theory \<open>Runs\<close>): the grid shows the placeholder alone or cards of loaded
  articles in loaded order; exactly the slide at \<open>currentSlide\<close> is active when the
  markup starts that way; draining the fetch timers stops after one event per pending
  load, and then every load has completed with the current category's articles shown;
  a navigation link to a missing page ends in an uncaught \<open>TypeError\<close> on the console;
  the Enter key and the search button are interchangeable in every event sequence;
  scrolling is locked exactly while the mobile menu is open; alerts and logged forms
  count the contact submissions; a search survives a category change only in the
  search box.

  \<^bold>\<open>Findings shown by theorems.\<close>
  \<^item> The stale-result race of spec section 5 cannot happen. The category is read after
    the \<open>await\<close>, so overlapping loads both show the latest category.
  \<^item> The error path is dead code.
  \<^item> The loading indicator is hidden whenever a load completes while another is in
    flight.
  \<^item> Two toggles do not restore an absent stored preference.
  \<^item> A missing page leaves no view visible and the menu open.
  \<^item> Feed text is interpolated into markup without escaping.
  \<^item> A page without hero slides makes every slider handler, the interval included, throw.
  \<^item> After a search, a category change shows the whole category while the search box
    still holds the query (the open question of spec section 9).

  \<^bold>\<open>Plan for the development.\<close> Modelled in this order: the feed (loader, filter,
  search, renderer), navigation, slider, theme, contact form, then their composition.
  Every handler, the start-up code and the asynchronous loader are modelled; what remains
  outside the model is listed below and cannot be modelled faithfully from the
  repository.

  \<^bold>\<open>Not modelled.\<close> Listener registration (lines 2--18, 27, 46, 64, 96, 106, 113, 129,
  135, 302) is the event set itself. Styling, \<open>preventDefault\<close>, the one-second delay and
  the 5-second period are not modelled; only the order of events matters. The locale date
  format is a parameter of the card markup. String code units above U+00FF (case mapping
  and white space outside Latin-1) are not representable with \<open>char\<close>. The commented-out NewsAPI request (lines
  173--175) is not code, so the remote Article Source of spec sections 6 and 9 is not
  modelled: the script has no source interface, only the inline mock table, which
  \<open>Articles\<close> states against the contract (\<open>source_contract\<close>). The page's markup
  (\<open>index.html\<close>) is not in the repository; it is the parameter \<open>page_html\<close>, with the
  shape the script requires, and the properties that depend on it state what they assume
  of it. How the browser's HTML parser re-reads field values that contain markup is not
  modelled; the headline round trip is stated for markup-free fields.
  No fuel or bound is needed: every handler is total and structurally recursive. The one
  unbounded loop, \<open>drain_loads\<close>, is a \<open>while_option\<close> whose termination is a
  theorem (it returns \<open>Some\<close> after exactly \<open>pending_loads\<close> iterations).
\<close>

end
